theory Spec2Isabelle
  imports Main
begin

section \<open>JavaScript values\<close>

text \<open>
  The schema compilers are dynamically typed JavaScript: a field definition is an object
  literal whose entries are iterated in insertion order, a type token is either one of the
  constructor constants (\<^verbatim>\<open>String\<close>, \<^verbatim>\<open>Number\<close>, ...) or a string, and a modifier value
  can be anything. Values are therefore one datatype. Objects are association lists in
  insertion order (keys that look like array indices are not moved to the front, as
  \<^verbatim>\<open>Object.entries\<close> would); a well-formed object has pairwise distinct keys. Numbers are integers,
  strings are lists of 8-bit characters and \<^verbatim>\<open>toLowerCase\<close> folds the ASCII letters.
  A function value is opaque: a name and the values its closure captured.
  \<^verbatim>\<open>ObjectId_ctor\<close> and \<^verbatim>\<open>Mixed_ctor\<close> stand for
  \<^verbatim>\<open>mongoose.Schema.Types.ObjectId\<close> and \<^verbatim>\<open>mongoose.Schema.Types.Mixed\<close>.
\<close>

datatype ctor =
  String_ctor | Number_ctor | Boolean_ctor | Date_ctor | Array_ctor | Object_ctor | Map_ctor
  | ObjectId_ctor | Mixed_ctor

datatype jsval =
  JUndefined
  | JNull
  | JBool bool
  | JNum int
  | JStr string
  | JArr "jsval list"
  | JObj "(string \<times> jsval) list"
  | JRegExp string string
  | JDate int
  | JCtor ctor
  | JFun string "jsval list"

text \<open>What the code can throw: a \<^verbatim>\<open>TypeError\<close> of the runtime (a property read on
  \<^verbatim>\<open>null\<close> or \<^verbatim>\<open>undefined\<close>, a call of something that is not a function), a
  \<^verbatim>\<open>SyntaxError\<close> of \<^verbatim>\<open>new RegExp\<close>, and the compiler's own
  \<^verbatim>\<open>throw new Error(message)\<close>.\<close>

datatype error = TypeError | SyntaxError | Error string

definition and_then :: "error + 'a \<Rightarrow> ('a \<Rightarrow> error + 'b) \<Rightarrow> error + 'b" where
  "and_then r f = (case r of Inl e \<Rightarrow> Inl e | Inr x \<Rightarrow> f x)"

definition truthy :: "jsval \<Rightarrow> bool" where
  "truthy v =
     (case v of
        JUndefined \<Rightarrow> False
      | JNull \<Rightarrow> False
      | JBool b \<Rightarrow> b
      | JNum n \<Rightarrow> n \<noteq> 0
      | JStr s \<Rightarrow> s \<noteq> []
      | _ \<Rightarrow> True)"

definition typeof :: "jsval \<Rightarrow> string" where
  "typeof v =
     (case v of
        JUndefined \<Rightarrow> ''undefined''
      | JBool _ \<Rightarrow> ''boolean''
      | JNum _ \<Rightarrow> ''number''
      | JStr _ \<Rightarrow> ''string''
      | JCtor _ \<Rightarrow> ''function''
      | JFun _ _ \<Rightarrow> ''function''
      | _ \<Rightarrow> ''object'')"

definition lower_char :: "char \<Rightarrow> char" where
  "lower_char c =
     (let n = (of_char c :: nat) in if 65 \<le> n \<and> n \<le> 90 then char_of (n + 32) else c)"

definition toLowerCase :: "string \<Rightarrow> string" where
  "toLowerCase s = map lower_char s"


text \<open>\<^verbatim>\<open>String.prototype.includes\<close>: the needle occurs as a contiguous substring.\<close>

fun includes_str :: "string \<Rightarrow> string \<Rightarrow> bool" where
  "includes_str [] needle = (needle = [])"
| "includes_str (c # cs) needle =
     (take (length needle) (c # cs) = needle \<or> includes_str cs needle)"

text \<open>Decimal printing of numbers, for template literals and array index keys.\<close>

definition digit_char :: "nat \<Rightarrow> char" where
  "digit_char d = char_of (48 + d)"

fun show_nat :: "nat \<Rightarrow> string" where
  "show_nat n = (if n < 10 then [digit_char n] else show_nat (n div 10) @ [digit_char (n mod 10)])"

declare show_nat.simps [simp del]

definition show_int :: "int \<Rightarrow> string" where
  "show_int i = (if i < 0 then CHR ''-'' # show_nat (nat (- i)) else show_nat (nat i))"

fun join_str :: "string \<Rightarrow> string list \<Rightarrow> string" where
  "join_str sep [] = []"
| "join_str sep [s] = s"
| "join_str sep (s # t # ss) = s @ sep @ join_str sep (t # ss)"

text \<open>The string conversion of template literals and of \<^verbatim>\<open>Array.prototype.join\<close>.
  Inside \<^verbatim>\<open>join\<close>, \<^verbatim>\<open>null\<close> and \<^verbatim>\<open>undefined\<close> elements print as the empty string.
  Objects print as \<^verbatim>\<open>[object Object]\<close> (no user-defined \<^verbatim>\<open>toString\<close> is modelled),
  a function prints as its name and a date as its time value.\<close>

fun js_to_string :: "jsval \<Rightarrow> string" where
  "js_to_string JUndefined = ''undefined''"
| "js_to_string JNull = ''null''"
| "js_to_string (JBool b) = (if b then ''true'' else ''false'')"
| "js_to_string (JNum n) = show_int n"
| "js_to_string (JStr s) = s"
| "js_to_string (JArr xs) =
     join_str '','' (map (\<lambda>x. if x = JUndefined \<or> x = JNull then [] else js_to_string x) xs)"
| "js_to_string (JObj es) = ''[object Object]''"
| "js_to_string (JRegExp src flags) = ''/'' @ src @ ''/'' @ flags"
| "js_to_string (JDate t) = show_int t"
| "js_to_string (JCtor c) = ''function''"
| "js_to_string (JFun name captured) = name"

definition array_join :: "jsval list \<Rightarrow> string \<Rightarrow> string" where
  "array_join xs sep =
     join_str sep (map (\<lambda>x. if x = JUndefined \<or> x = JNull then [] else js_to_string x) xs)"

text \<open>Indexed own properties of arrays and strings, as \<^verbatim>\<open>Object.entries\<close> lists them.\<close>

definition indexed :: "'a list \<Rightarrow> (string \<times> 'a) list" where
  "indexed xs = map (\<lambda>i. (show_nat i, xs ! i)) [0 ..< length xs]"

definition own_entries :: "jsval \<Rightarrow> (string \<times> jsval) list" where
  "own_entries v =
     (case v of
        JObj es \<Rightarrow> es
      | JArr xs \<Rightarrow> indexed xs
      | JStr s \<Rightarrow> indexed (map (\<lambda>c. JStr [c]) s)
      | _ \<Rightarrow> [])"

text \<open>\<^verbatim>\<open>Object.entries(v)\<close> throws on \<^verbatim>\<open>null\<close> and \<^verbatim>\<open>undefined\<close>.\<close>

definition objectEntries :: "jsval \<Rightarrow> error + (string \<times> jsval) list" where
  "objectEntries v = (if v = JUndefined \<or> v = JNull then Inl TypeError else Inr (own_entries v))"

text \<open>A property read \<^verbatim>\<open>v.k\<close> or \<^verbatim>\<open>v[k]\<close>. Only own data properties are modelled (and
  \<^verbatim>\<open>length\<close> of arrays and strings); the compilers read no inherited member through it.\<close>

definition getProp :: "jsval \<Rightarrow> string \<Rightarrow> error + jsval" where
  "getProp v k =
     (if v = JUndefined \<or> v = JNull then Inl TypeError
      else Inr (case map_of (own_entries v) k of
                  Some x \<Rightarrow> x
                | None \<Rightarrow>
                    (case v of
                       JArr xs \<Rightarrow> if k = ''length'' then JNum (int (length xs)) else JUndefined
                     | JStr s \<Rightarrow> if k = ''length'' then JNum (int (length s)) else JUndefined
                     | _ \<Rightarrow> JUndefined)))"

text \<open>The optional chain \<^verbatim>\<open>v?.k\<close>.\<close>

definition getPropOpt :: "jsval \<Rightarrow> string \<Rightarrow> jsval" where
  "getPropOpt v k = (case getProp v k of Inl e \<Rightarrow> JUndefined | Inr x \<Rightarrow> x)"

text \<open>The assignment \<^verbatim>\<open>obj[k] = v\<close> on an object under construction: an existing key
  keeps its place, a new key goes last.\<close>

fun obj_set :: "(string \<times> 'a) list \<Rightarrow> string \<Rightarrow> 'a \<Rightarrow> (string \<times> 'a) list" where
  "obj_set [] k v = [(k, v)]"
| "obj_set ((k', v') # es) k v = (if k' = k then (k, v) # es else (k', v') # obj_set es k v)"

text \<open>Object spread \<^verbatim>\<open>{...base, ...v}\<close>: the own entries of \<open>v\<close> are assigned in order;
  spreading \<^verbatim>\<open>null\<close> or \<^verbatim>\<open>undefined\<close> adds nothing.\<close>

definition spread :: "(string \<times> jsval) list \<Rightarrow> jsval \<Rightarrow> (string \<times> jsval) list" where
  "spread base v = foldl (\<lambda>acc (k, x). obj_set acc k x) base (own_entries v)"

text \<open>A destructuring default \<^verbatim>\<open>{ k = d } = v\<close>: the default stands in for
  \<^verbatim>\<open>undefined\<close> only.\<close>

definition orDefault :: "jsval \<Rightarrow> jsval \<Rightarrow> jsval" where
  "orDefault v d = (if v = JUndefined then d else v)"

definition isArray :: "jsval \<Rightarrow> bool" where
  "isArray v = (case v of JArr _ \<Rightarrow> True | _ \<Rightarrow> False)"

section \<open>The persistence schema compiler\<close>

text \<open>\<^verbatim>\<open>typeStr\<close>: the lower-cased type token when it is a string, the empty string
  otherwise.\<close>

definition typeStr_of :: "jsval \<Rightarrow> string" where
  "typeStr_of t = (case t of JStr s \<Rightarrow> toLowerCase s | _ \<Rightarrow> [])"

text \<open>The \<^verbatim>\<open>switch (fieldProps.type)\<close> of \<^verbatim>\<open>createMongooseSchema\<close>: the five
  constructor constants first, then the lower-cased string aliases, and in the last
  \<^verbatim>\<open>default\<close> the token itself.\<close>

definition mongooseType :: "jsval \<Rightarrow> jsval" where
  "mongooseType t =
     (if t = JCtor String_ctor then JCtor String_ctor
      else if t = JCtor Number_ctor then JCtor Number_ctor
      else if t = JCtor Boolean_ctor then JCtor Boolean_ctor
      else if t = JCtor Date_ctor then JCtor Date_ctor
      else if t = JCtor Array_ctor then JCtor Array_ctor
      else
        (let typeStr = typeStr_of t in
         if typeStr = ''string'' then JCtor String_ctor
         else if typeStr = ''number'' then JCtor Number_ctor
         else if typeStr = ''boolean'' then JCtor Boolean_ctor
         else if typeStr = ''date'' then JCtor Date_ctor
         else if typeStr = ''array'' then JCtor Array_ctor
         else if typeStr = ''objectid'' \<or> typeStr = ''object_id'' then JCtor ObjectId_ctor
         else if typeStr = ''mixed'' then JCtor Mixed_ctor
         else if typeStr = ''object'' then JCtor Mixed_ctor
         else t))"

text \<open>The \<^verbatim>\<open>items\<close> case: the element type of an array field. It is reached with a
  truthy \<open>propValue\<close> only, so its property reads cannot throw.\<close>

definition mongooseItems :: "(string \<times> jsval) list \<Rightarrow> jsval \<Rightarrow> (string \<times> jsval) list" where
  "mongooseItems fieldConfig propValue =
     (let itemType = getPropOpt propValue ''type'';
          itemTypeStr = typeStr_of itemType
      in
      if itemType = JCtor String_ctor then obj_set fieldConfig ''type'' (JArr [JCtor String_ctor])
      else if itemType = JCtor Number_ctor then obj_set fieldConfig ''type'' (JArr [JCtor Number_ctor])
      else if itemType = JCtor Date_ctor then obj_set fieldConfig ''type'' (JArr [JCtor Date_ctor])
      else if itemType = JCtor Boolean_ctor then obj_set fieldConfig ''type'' (JArr [JCtor Boolean_ctor])
      else if itemType = JCtor Array_ctor then obj_set fieldConfig ''type'' (JArr [JCtor Array_ctor])
      else if itemTypeStr = ''string'' then obj_set fieldConfig ''type'' (JArr [JCtor String_ctor])
      else if itemTypeStr = ''number'' then obj_set fieldConfig ''type'' (JArr [JCtor Number_ctor])
      else if itemTypeStr = ''date'' then obj_set fieldConfig ''type'' (JArr [JCtor Date_ctor])
      else if itemTypeStr = ''boolean'' then obj_set fieldConfig ''type'' (JArr [JCtor Boolean_ctor])
      else if itemTypeStr = ''array'' then obj_set fieldConfig ''type'' (JArr [JCtor Array_ctor])
      else if itemTypeStr = ''objectid'' \<or> itemTypeStr = ''object_id'' then
        (let cfg = obj_set fieldConfig ''type'' (JArr [JCtor ObjectId_ctor]);
             r = getPropOpt propValue ''ref''
         in if truthy r then obj_set cfg ''ref'' r else cfg)
      else obj_set fieldConfig ''type'' (JArr [JCtor Mixed_ctor]))"

text \<open>One round of the loop over \<^verbatim>\<open>Object.entries(fieldProps)\<close>: the
  \<^verbatim>\<open>switch (propName)\<close>. The validator closures are function values that capture the
  pattern.\<close>

definition mongooseProp :: "(string \<times> jsval) list \<Rightarrow> string \<times> jsval \<Rightarrow> (string \<times> jsval) list" where
  "mongooseProp fieldConfig p =
     (let propName = fst p; propValue = snd p in
      if propName = ''type'' then fieldConfig
      else if propName = ''required'' then obj_set fieldConfig ''required'' propValue
      else if propName = ''unique'' then obj_set fieldConfig ''unique'' propValue
      else if propName = ''minlength'' \<or> propName = ''minLength'' then
        obj_set fieldConfig ''minlength'' propValue
      else if propName = ''maxlength'' \<or> propName = ''maxLength'' then
        obj_set fieldConfig ''maxlength'' propValue
      else if propName = ''min'' then obj_set fieldConfig ''min'' propValue
      else if propName = ''max'' then obj_set fieldConfig ''max'' propValue
      else if propName = ''default'' then obj_set fieldConfig ''default'' propValue
      else if propName = ''ref'' then obj_set fieldConfig ''ref'' propValue
      else if propName = ''items'' then
        (if map_of fieldConfig ''type'' = Some (JCtor Array_ctor) \<and> truthy propValue
         then mongooseItems fieldConfig propValue else fieldConfig)
      else if propName = ''email'' then
        (if propValue = JBool True then
           obj_set fieldConfig ''validate''
             (JObj [(''validator'', JFun ''emailValidator'' []),
                    (''message'', JStr ''Invalid email format'')])
         else fieldConfig)
      else if propName = ''enum'' then
        (if isArray propValue then obj_set fieldConfig ''enum'' propValue else fieldConfig)
      else if propName = ''regex'' \<or> propName = ''match'' then
        (case propValue of
           JRegExp src flags \<Rightarrow>
             obj_set fieldConfig ''validate''
               (JObj [(''validator'', JFun ''regExpValidator'' [propValue]),
                      (''message'', JStr ''Invalid format'')])
         | JStr src \<Rightarrow>
             obj_set fieldConfig ''validate''
               (JObj [(''validator'', JFun ''patternStringValidator'' [propValue]),
                      (''message'', JStr ''Invalid format'')])
         | _ \<Rightarrow> fieldConfig)
      else if propName = ''select'' then obj_set fieldConfig ''select'' propValue
      else if propName = ''sparse'' then obj_set fieldConfig ''sparse'' propValue
      else if propName = ''index'' then obj_set fieldConfig ''index'' propValue
      else if propName = ''text'' then obj_set fieldConfig ''text'' propValue
      else if propName = ''immutable'' then obj_set fieldConfig ''immutable'' propValue
      else if propName = ''transform'' then obj_set fieldConfig ''transform'' propValue
      else if propName = ''get'' then obj_set fieldConfig ''get'' propValue
      else if propName = ''set'' then obj_set fieldConfig ''set'' propValue
      else fieldConfig)"

text \<open>The body of the loop over the fields: \<^verbatim>\<open>fieldProps.type\<close> throws when the field
  definition is \<^verbatim>\<open>null\<close> or \<^verbatim>\<open>undefined\<close>; nothing after it can.\<close>

definition mongooseFieldConfig :: "jsval \<Rightarrow> error + (string \<times> jsval) list" where
  "mongooseFieldConfig fieldProps =
     and_then (getProp fieldProps ''type'') (\<lambda>t.
       Inr (foldl mongooseProp [(''type'', mongooseType t)] (own_entries fieldProps)))"

fun mongooseFields ::
  "(string \<times> jsval) list \<Rightarrow> (string \<times> jsval) list \<Rightarrow> error + (string \<times> jsval) list" where
  "mongooseFields mongooseSchemaObject [] = Inr mongooseSchemaObject"
| "mongooseFields mongooseSchemaObject ((fieldName, fieldProps) # rest) =
     and_then (mongooseFieldConfig fieldProps) (\<lambda>fieldConfig.
       mongooseFields (obj_set mongooseSchemaObject fieldName (JObj fieldConfig)) rest)"

text \<open>The storage engine is external. The compiled persistence schema is what the compiler
  hands it: the two arguments of \<^verbatim>\<open>new mongoose.Schema\<close> and, in order, the registrations
  made on the schema afterwards.\<close>

datatype schema_call =
  Pre string jsval
  | Post string jsval
  | Virtual string
  | VirtualGet string jsval
  | VirtualSet string jsval
  | Index string jsval

record mongoose_schema =
  schema_definition :: "(string \<times> jsval) list"
  schema_options :: "(string \<times> jsval) list"
  schema_calls :: "schema_call list"

text \<open>\<^verbatim>\<open>if (middleware.pre) Object.entries(middleware.pre).forEach(...)\<close>, and the same for
  \<^verbatim>\<open>post\<close>.\<close>

definition hookCalls :: "(string \<Rightarrow> jsval \<Rightarrow> schema_call) \<Rightarrow> jsval \<Rightarrow> schema_call list" where
  "hookCalls mk hooks = (if truthy hooks then map (\<lambda>(hook, fn). mk hook fn) (own_entries hooks) else [])"

fun virtualCalls :: "(string \<times> jsval) list \<Rightarrow> error + schema_call list" where
  "virtualCalls [] = Inr []"
| "virtualCalls ((name, config) # rest) =
     (if typeof config = ''function'' then
        and_then (virtualCalls rest) (\<lambda>cs. Inr (Virtual name # VirtualGet name config # cs))
      else
        and_then (getProp config ''get'') (\<lambda>g.
        and_then (getProp config ''set'') (\<lambda>s.
        and_then (virtualCalls rest) (\<lambda>cs.
          Inr (Virtual name
               # (if truthy g then [VirtualGet name g] else [])
               @ (if truthy s then [VirtualSet name s] else [])
               @ cs)))))"

definition createMongooseSchema :: "jsval \<Rightarrow> jsval \<Rightarrow> error + mongoose_schema" where
  "createMongooseSchema schemaDefinition options0 =
     (let options = orDefault options0 (JObj []) in
      and_then (getProp options ''schemaOptions'') (\<lambda>so.
      and_then (getProp options ''middleware'') (\<lambda>mw.
      and_then (getProp options ''virtuals'') (\<lambda>vs.
      and_then (getProp options ''indexes'') (\<lambda>ix.
        (let schemaOptions = orDefault so (JObj []);
             middleware = orDefault mw (JObj []);
             virtuals = orDefault vs (JObj []);
             indexes = orDefault ix (JObj [])
         in
         and_then (objectEntries schemaDefinition) (\<lambda>entries.
         and_then (mongooseFields [] entries) (\<lambda>mongooseSchemaObject.
           (let finalSchemaOptions = spread [(''timestamps'', JBool True)] schemaOptions in
            and_then (getProp middleware ''pre'') (\<lambda>pre.
            and_then (getProp middleware ''post'') (\<lambda>post.
            and_then (if truthy virtuals then virtualCalls (own_entries virtuals) else Inr [])
              (\<lambda>vcalls.
                Inr \<lparr> schema_definition = mongooseSchemaObject,
                      schema_options = finalSchemaOptions,
                      schema_calls =
                        hookCalls Pre pre @ hookCalls Post post @ vcalls
                        @ (if truthy indexes then map (\<lambda>(field, indexConfig). Index field indexConfig)
                                                    (own_entries indexes)
                           else []) \<rparr>))))))))))))"

section \<open>The validation engine\<close>

text \<open>
  The validation schema is built with the Zod library, which is not part of the repository.
  What follows is the part of it the compiler uses: the schema nodes its calls construct,
  the two attributes the compiler reads back from a node (\<^verbatim>\<open>_def.type\<close> and
  \<^verbatim>\<open>_def.typeName\<close>), and parsing.

  The two attributes belong to different generations of the library. Zod 4 tags every
  node with \<^verbatim>\<open>_def.type\<close> (\<^verbatim>\<open>'string'\<close>, \<^verbatim>\<open>'number'\<close>, \<^verbatim>\<open>'array'\<close>, ...) and
  has no \<^verbatim>\<open>_def.typeName\<close>; Zod 3 tags every node with \<^verbatim>\<open>_def.typeName\<close>
  (\<^verbatim>\<open>'ZodString'\<close>, ...) and has no string-valued \<^verbatim>\<open>_def.type\<close> (on an array node it
  is the element schema). Zod 4 keeps a refinement in the check list of the node it
  refines; Zod 3 wraps the node in an effects node. The library generation is a
  parameter of the model, together with the three things the engine delegates to the
  JavaScript runtime or keeps internal: whether a pattern source compiles, whether a
  compiled user pattern matches, and the library's own e-mail format test.
\<close>

datatype zod_version = ZodV3 | ZodV4

record env =
  version :: zod_version
  regexp_valid :: "string \<Rightarrow> bool"
  regexp_test :: "string \<Rightarrow> string \<Rightarrow> string \<Rightarrow> bool"
  email_test :: "string \<Rightarrow> bool"
  call_default :: "jsval \<Rightarrow> jsval"

text \<open>A pattern is one of the compiler's two regular-expression literals or a pattern the
  caller supplied (source and flags).\<close>

datatype regex = ObjectIdPattern | PasswordPattern | Pattern string string

datatype check =
  MinCheck jsval jsval
  | MaxCheck jsval jsval
  | LengthCheck nat jsval
  | RegexCheck regex jsval
  | EmailCheck jsval
  | ToLowerCase
  | Refine "string list" jsval

text \<open>\<open>Refine allowed message\<close> is the one refinement the compiler writes:
  \<^verbatim>\<open>(val) => lowerCaseEnum.includes(val)\<close>. In \<open>ZodObject shape passthrough catchall\<close>
  the flag is \<^verbatim>\<open>.passthrough()\<close> and the option is \<^verbatim>\<open>.catchall(schema)\<close>.\<close>

datatype zod =
  ZodString "check list"
  | ZodNumber "check list"
  | ZodBoolean
  | ZodDate
  | ZodAny
  | ZodArray zod "check list"
  | ZodObject "(string \<times> zod) list" bool "zod option"
  | ZodOptional zod
  | ZodDefault zod jsval
  | ZodEffects zod "string list" jsval

definition v4_type :: "zod \<Rightarrow> string" where
  "v4_type v =
     (case v of
        ZodString _ \<Rightarrow> ''string''
      | ZodNumber _ \<Rightarrow> ''number''
      | ZodBoolean \<Rightarrow> ''boolean''
      | ZodDate \<Rightarrow> ''date''
      | ZodAny \<Rightarrow> ''any''
      | ZodArray _ _ \<Rightarrow> ''array''
      | ZodObject _ _ _ \<Rightarrow> ''object''
      | ZodOptional _ \<Rightarrow> ''optional''
      | ZodDefault _ _ \<Rightarrow> ''default''
      | ZodEffects _ _ _ \<Rightarrow> ''pipe'')"

definition v3_typeName :: "zod \<Rightarrow> string" where
  "v3_typeName v =
     (case v of
        ZodString _ \<Rightarrow> ''ZodString''
      | ZodNumber _ \<Rightarrow> ''ZodNumber''
      | ZodBoolean \<Rightarrow> ''ZodBoolean''
      | ZodDate \<Rightarrow> ''ZodDate''
      | ZodAny \<Rightarrow> ''ZodAny''
      | ZodArray _ _ \<Rightarrow> ''ZodArray''
      | ZodObject _ _ _ \<Rightarrow> ''ZodObject''
      | ZodOptional _ \<Rightarrow> ''ZodOptional''
      | ZodDefault _ _ \<Rightarrow> ''ZodDefault''
      | ZodEffects _ _ _ \<Rightarrow> ''ZodEffects'')"

text \<open>\<^verbatim>\<open>zodValidator._def.type === s\<close> and \<^verbatim>\<open>zodValidator._def.typeName === s\<close>.\<close>

definition def_type_is :: "env \<Rightarrow> zod \<Rightarrow> string \<Rightarrow> bool" where
  "def_type_is env v s = (version env = ZodV4 \<and> v4_type v = s)"

definition def_typeName_is :: "env \<Rightarrow> zod \<Rightarrow> string \<Rightarrow> bool" where
  "def_typeName_is env v s = (version env = ZodV3 \<and> v3_typeName v = s)"

text \<open>The builder methods. \<^verbatim>\<open>.min\<close>, \<^verbatim>\<open>.max\<close>, \<^verbatim>\<open>.length\<close>, \<^verbatim>\<open>.regex\<close>,
  \<^verbatim>\<open>.email\<close> and \<^verbatim>\<open>.toLowerCase\<close> return a node of the same class with one more
  check; the compiler calls them on string, number and array nodes only.\<close>

definition add_check :: "zod \<Rightarrow> check \<Rightarrow> zod" where
  "add_check v c =
     (case v of
        ZodString cs \<Rightarrow> ZodString (cs @ [c])
      | ZodNumber cs \<Rightarrow> ZodNumber (cs @ [c])
      | ZodArray e cs \<Rightarrow> ZodArray e (cs @ [c])
      | _ \<Rightarrow> v)"

definition refine :: "env \<Rightarrow> zod \<Rightarrow> string list \<Rightarrow> jsval \<Rightarrow> zod" where
  "refine env v allowed message =
     (if version env = ZodV4 then add_check v (Refine allowed message)
      else ZodEffects v allowed message)"

text \<open>\<^verbatim>\<open>z.string().length(24, 'Invalid ObjectId').regex(/^[0-9a-fA-F]{24}$/, 'Invalid ObjectId format')\<close>\<close>

definition objectIdValidator :: zod where
  "objectIdValidator =
     ZodString [LengthCheck 24 (JStr ''Invalid ObjectId''),
                RegexCheck ObjectIdPattern (JStr ''Invalid ObjectId format'')]"

text \<open>\<^verbatim>\<open>z.object({}).passthrough()\<close> and \<^verbatim>\<open>z.object({}).catchall(z.string())\<close>\<close>

definition openObject :: zod where
  "openObject = ZodObject [] True None"

definition stringMap :: zod where
  "stringMap = ZodObject [] False (Some (ZodString []))"

subsection \<open>Parsing\<close>

definition is_lower :: "char \<Rightarrow> bool" where
  "is_lower c = (let n = (of_char c :: nat) in 97 \<le> n \<and> n \<le> 122)"

definition is_upper :: "char \<Rightarrow> bool" where
  "is_upper c = (let n = (of_char c :: nat) in 65 \<le> n \<and> n \<le> 90)"

definition is_digit :: "char \<Rightarrow> bool" where
  "is_digit c = (let n = (of_char c :: nat) in 48 \<le> n \<and> n \<le> 57)"

definition is_hex :: "char \<Rightarrow> bool" where
  "is_hex c =
     (let n = (of_char c :: nat)
      in (48 \<le> n \<and> n \<le> 57) \<or> (97 \<le> n \<and> n \<le> 102) \<or> (65 \<le> n \<and> n \<le> 70))"

definition is_symbol :: "char \<Rightarrow> bool" where
  "is_symbol c = (c \<in> set ''@$!%*?&#'')"

text \<open>\<^verbatim>\<open>/^[0-9a-fA-F]{24}$/\<close>\<close>

definition objectid_match :: "string \<Rightarrow> bool" where
  "objectid_match s = (length s = 24 \<and> list_all is_hex s)"

text \<open>\<^verbatim>\<open>/^(?=.*[a-z])(?=.*[A-Z])(?=.*\d)(?=.*[@$!%*?&#])[A-Za-z\d@$!%*?&#]{8,}$/\<close>\<close>

definition password_match :: "string \<Rightarrow> bool" where
  "password_match s =
     (list_ex is_lower s \<and> list_ex is_upper s \<and> list_ex is_digit s \<and> list_ex is_symbol s
      \<and> list_all (\<lambda>c. is_lower c \<or> is_upper c \<or> is_digit c \<or> is_symbol c) s
      \<and> 8 \<le> length s)"

definition regex_match :: "env \<Rightarrow> regex \<Rightarrow> string \<Rightarrow> bool" where
  "regex_match env r s =
     (case r of
        ObjectIdPattern \<Rightarrow> objectid_match s
      | PasswordPattern \<Rightarrow> password_match s
      | Pattern src flags \<Rightarrow> regexp_test env src flags s)"

text \<open>The numeric value of a bound. A bound that is no number is converted as the
  comparison operators do; \<open>None\<close> is \<^verbatim>\<open>NaN\<close>. Only decimal digit strings among the
  strings, and no object, are given a numeric value here.\<close>

definition digits_value :: "string \<Rightarrow> int" where
  "digits_value s = foldl (\<lambda>acc c. 10 * acc + (int (of_char c) - 48)) 0 s"

definition to_number :: "jsval \<Rightarrow> int option" where
  "to_number v =
     (case v of
        JNum n \<Rightarrow> Some n
      | JBool b \<Rightarrow> Some (if b then 1 else 0)
      | JNull \<Rightarrow> Some 0
      | JDate t \<Rightarrow> Some t
      | JStr s \<Rightarrow> if list_all is_digit s then Some (digits_value s) else None
      | _ \<Rightarrow> None)"

text \<open>A lower and an upper bound on a length or a number. Zod 4 accepts when
  \<^verbatim>\<open>n >= bound\<close> holds, Zod 3 rejects when \<^verbatim>\<open>n < bound\<close> holds: they differ on
  \<^verbatim>\<open>NaN\<close> only.\<close>

definition min_ok :: "env \<Rightarrow> int \<Rightarrow> jsval \<Rightarrow> bool" where
  "min_ok env n bound = (case to_number bound of Some b \<Rightarrow> b \<le> n | None \<Rightarrow> version env = ZodV3)"

definition max_ok :: "env \<Rightarrow> int \<Rightarrow> jsval \<Rightarrow> bool" where
  "max_ok env n bound = (case to_number bound of Some b \<Rightarrow> n \<le> b | None \<Rightarrow> version env = ZodV3)"

text \<open>The checks of a string node run in order on the current value; \<^verbatim>\<open>toLowerCase\<close>
  replaces it. The result is the output value, or \<open>None\<close> when a check raised an issue.\<close>

fun string_checks :: "env \<Rightarrow> check list \<Rightarrow> string \<Rightarrow> string option" where
  "string_checks env [] s = Some s"
| "string_checks env (c # cs) s =
     (case c of
        ToLowerCase \<Rightarrow> string_checks env cs (toLowerCase s)
      | MinCheck b m \<Rightarrow> if min_ok env (int (length s)) b then string_checks env cs s else None
      | MaxCheck b m \<Rightarrow> if max_ok env (int (length s)) b then string_checks env cs s else None
      | LengthCheck n m \<Rightarrow> if length s = n then string_checks env cs s else None
      | RegexCheck r m \<Rightarrow> if regex_match env r s then string_checks env cs s else None
      | EmailCheck m \<Rightarrow> if email_test env s then string_checks env cs s else None
      | Refine allowed m \<Rightarrow> if s \<in> set allowed then string_checks env cs s else None)"

text \<open>The checks of a number node (on the number) and of an array node (on its length).\<close>

definition bound_check :: "env \<Rightarrow> int \<Rightarrow> check \<Rightarrow> bool" where
  "bound_check env n c =
     (case c of
        MinCheck b m \<Rightarrow> min_ok env n b
      | MaxCheck b m \<Rightarrow> max_ok env n b
      | LengthCheck k m \<Rightarrow> n = int k
      | _ \<Rightarrow> True)"

text \<open>What an object node takes for an object: Zod 4 anything of type \<^verbatim>\<open>object\<close> but
  \<^verbatim>\<open>null\<close> and arrays, Zod 3 not dates either.\<close>

definition object_input :: "env \<Rightarrow> jsval \<Rightarrow> bool" where
  "object_input env x =
     (case x of
        JObj _ \<Rightarrow> True
      | JRegExp _ _ \<Rightarrow> True
      | JDate _ \<Rightarrow> version env = ZodV4
      | _ \<Rightarrow> False)"

fun all_some :: "'a option list \<Rightarrow> 'a list option" where
  "all_some [] = Some []"
| "all_some (None # xs) = None"
| "all_some (Some x # xs) = (case all_some xs of None \<Rightarrow> None | Some ys \<Rightarrow> Some (x # ys))"

text \<open>\<open>parse env schema input\<close> is the output of \<^verbatim>\<open>schema.safeParse(input)\<close>, or \<open>None\<close>
  when it reports issues. An optional node lets \<^verbatim>\<open>undefined\<close> through. A default node
  replaces \<^verbatim>\<open>undefined\<close> by the default (the result of calling it, when it is a
  function), which Zod 3 then parses with the inner schema and Zod 4 returns as it is.\<close>

text \<open>The nodes Zod 4 marks as taking \<^verbatim>\<open>undefined\<close> themselves (\<^verbatim>\<open>optin\<close>): an
  optional node around one of them hands \<^verbatim>\<open>undefined\<close> on instead of returning it.\<close>

definition optional_input :: "zod \<Rightarrow> bool" where
  "optional_input v = (case v of ZodOptional _ \<Rightarrow> True | ZodDefault _ _ \<Rightarrow> True | _ \<Rightarrow> False)"

definition default_value :: "env \<Rightarrow> jsval \<Rightarrow> jsval" where
  "default_value env d = (if typeof d = ''function'' then call_default env d else d)"

fun parse :: "env \<Rightarrow> zod \<Rightarrow> jsval \<Rightarrow> jsval option" where
  "parse env (ZodString cs) x =
     (case x of JStr s \<Rightarrow> map_option JStr (string_checks env cs s) | _ \<Rightarrow> None)"
| "parse env (ZodNumber cs) x =
     (case x of JNum n \<Rightarrow> if list_all (bound_check env n) cs then Some x else None | _ \<Rightarrow> None)"
| "parse env ZodBoolean x = (case x of JBool b \<Rightarrow> Some x | _ \<Rightarrow> None)"
| "parse env ZodDate x = (case x of JDate t \<Rightarrow> Some x | _ \<Rightarrow> None)"
| "parse env ZodAny x = Some x"
| "parse env (ZodArray e cs) x =
     (case x of
        JArr xs \<Rightarrow>
          if list_all (bound_check env (int (length xs))) cs
          then map_option JArr (all_some (map (parse env e) xs)) else None
      | _ \<Rightarrow> None)"
| "parse env (ZodObject shape passthrough catchall) x =
     (if object_input env x then
        (let known = all_some (map (\<lambda>(k, s). map_option (Pair k) (parse env s (getPropOpt x k))) shape);
             extra = filter (\<lambda>(k, v). k \<notin> fst ` set shape) (own_entries x);
             rest = (case catchall of
                       Some c \<Rightarrow> all_some (map (\<lambda>(k, v). map_option (Pair k) (parse env c v)) extra)
                     | None \<Rightarrow> Some (if passthrough then extra else []))
         in case known of
              None \<Rightarrow> None
            | Some ks \<Rightarrow>
                (case rest of
                   None \<Rightarrow> None
                 | Some rs \<Rightarrow>
                     Some (JObj (filter (\<lambda>(k, v). k \<in> fst ` set (own_entries x) \<or> v \<noteq> JUndefined) ks
                                 @ rs))))
      else None)"
| "parse env (ZodOptional inner) x =
     (if x = JUndefined \<and> \<not> (version env = ZodV4 \<and> optional_input inner) then Some JUndefined
      else parse env inner x)"
| "parse env (ZodDefault inner d) x =
     (if x = JUndefined then
        (if version env = ZodV4 then Some (default_value env d)
         else parse env inner (default_value env d))
      else parse env inner x)"
| "parse env (ZodEffects inner allowed message) x =
     (case parse env inner x of
        Some (JStr s) \<Rightarrow> if s \<in> set allowed then Some (JStr s) else None
      | _ \<Rightarrow> None)"

definition accepts :: "env \<Rightarrow> zod \<Rightarrow> jsval \<Rightarrow> bool" where
  "accepts env schema x = (parse env schema x \<noteq> None)"

section \<open>The validation schema compiler\<close>

text \<open>\<^verbatim>\<open>a || b\<close>\<close>

definition js_or :: "jsval \<Rightarrow> jsval \<Rightarrow> jsval" where
  "js_or a b = (if truthy a then a else b)"

definition defaultMessages :: "string \<Rightarrow> jsval \<Rightarrow> (string \<times> string) list" where
  "defaultMessages fieldName val =
     [(''required'', fieldName @ '' is required''),
      (''min'', fieldName @ '' must be at least '' @ js_to_string val),
      (''max'', fieldName @ '' must be at most '' @ js_to_string val),
      (''minlength'', fieldName @ '' must be at least '' @ js_to_string val @ '' characters''),
      (''maxlength'', fieldName @ '' must be at most '' @ js_to_string val @ '' characters''),
      (''email'', fieldName @ '' must be a valid email address''),
      (''regex'', fieldName @ '' format is invalid''),
      (''enum'', fieldName @ '' must be one of the allowed values'')]"

text \<open>\<^verbatim>\<open>getCustomMessage(fieldName, rule, value, customMessages = {})\<close>: the read
  \<^verbatim>\<open>customMessages[key]\<close> throws when the caller's \<^verbatim>\<open>customMessages\<close> is
  \<^verbatim>\<open>null\<close>.\<close>

definition getCustomMessage :: "string \<Rightarrow> string \<Rightarrow> jsval \<Rightarrow> jsval \<Rightarrow> error + jsval" where
  "getCustomMessage fieldName rule val customMessages0 =
     (let customMessages = orDefault customMessages0 (JObj []);
          key = fieldName @ ''.'' @ rule
      in
      and_then (getProp customMessages key) (\<lambda>m.
        if truthy m then Inr m
        else Inr (js_or (case map_of (defaultMessages fieldName val) rule of
                           Some d \<Rightarrow> JStr d
                         | None \<Rightarrow> JUndefined)
                        (JStr (fieldName @ '' validation failed'')))))"

text \<open>\<^verbatim>\<open>values.map(val => val.toLowerCase())\<close>: a \<^verbatim>\<open>TypeError\<close> unless \<open>values\<close> is
  an array of strings.\<close>

fun lowerStrings :: "jsval list \<Rightarrow> error + string list" where
  "lowerStrings [] = Inr []"
| "lowerStrings (JStr s # vs) = and_then (lowerStrings vs) (\<lambda>ls. Inr (toLowerCase s # ls))"
| "lowerStrings (v # vs) = Inl TypeError"

definition lowerCaseEnum :: "jsval \<Rightarrow> error + string list" where
  "lowerCaseEnum values = (case values of JArr vs \<Rightarrow> lowerStrings vs | _ \<Rightarrow> Inl TypeError)"

definition enumMessage :: "string \<Rightarrow> jsval \<Rightarrow> jsval" where
  "enumMessage fieldName values =
     JStr (fieldName @ '' must be one of: ''
           @ (case values of JArr vs \<Rightarrow> array_join vs '', '' | _ \<Rightarrow> []))"

text \<open>The array shorthand: the field definition is itself an array.
  \<^verbatim>\<open>itemValidator.toLowerCase()\<close> exists on string nodes only.\<close>

definition zodArrayShorthand :: "env \<Rightarrow> string \<Rightarrow> jsval \<Rightarrow> error + zod" where
  "zodArrayShorthand env fieldName fieldProps =
     (let first = getPropOpt fieldProps ''0'';
          itemType = js_or (getPropOpt first ''type'') (JStr ''String'');
          itemValidator =
            (if itemType = JCtor String_ctor \<or> itemType = JStr ''String'' then ZodString []
             else if itemType = JCtor Number_ctor \<or> itemType = JStr ''Number'' then ZodNumber []
             else if itemType = JCtor Boolean_ctor \<or> itemType = JStr ''Boolean'' then ZodBoolean
             else if itemType = JCtor Date_ctor \<or> itemType = JStr ''Date'' then ZodDate
             else ZodAny);
          enum = getPropOpt first ''enum''
      in
      if truthy enum then
        and_then (lowerCaseEnum enum) (\<lambda>lowered.
          (case itemValidator of
             ZodString cs \<Rightarrow>
               Inr (ZodArray (refine env (ZodString (cs @ [ToLowerCase])) lowered
                                (enumMessage fieldName enum)) [])
           | _ \<Rightarrow> Inl TypeError))
      else Inr (ZodArray itemValidator []))"

text \<open>The element validator of an array field with a truthy \<^verbatim>\<open>items\<close>. The source has
  this chain twice, word for word: under \<^verbatim>\<open>case Array\<close> and under \<^verbatim>\<open>case 'array'\<close>.\<close>

definition zodItemValidator :: "jsval \<Rightarrow> zod" where
  "zodItemValidator items =
     (let itemType = getPropOpt items ''type'';
          itemTypeStr = typeStr_of itemType
      in
      if itemType = JCtor String_ctor then ZodString []
      else if itemType = JCtor Number_ctor then ZodNumber []
      else if itemType = JCtor Boolean_ctor then ZodBoolean
      else if itemType = JCtor Date_ctor then ZodDate
      else if itemTypeStr = ''string'' then ZodString []
      else if itemTypeStr = ''number'' then ZodNumber []
      else if itemTypeStr = ''boolean'' then ZodBoolean
      else if itemTypeStr = ''date'' then ZodDate
      else if itemTypeStr = ''objectid'' \<or> itemTypeStr = ''object_id'' then objectIdValidator
      else ZodAny)"

definition zodArrayType :: "jsval \<Rightarrow> zod" where
  "zodArrayType fieldProps =
     (let items = getPropOpt fieldProps ''items''
      in if truthy items then ZodArray (zodItemValidator items) [] else ZodArray ZodAny [])"

text \<open>Step 1, the base type: \<^verbatim>\<open>switch (fieldProps.type)\<close> over the seven constructor
  constants, then \<^verbatim>\<open>switch (typeStr)\<close> over the lower-cased aliases, and
  \<^verbatim>\<open>throw new Error(`Invalid type: ${fieldProps.type}`)\<close> for anything else. \<open>nested\<close> is
  the value of the \<^verbatim>\<open>'object'\<close> case:
  \<^verbatim>\<open>fieldProps.schema ? createZodSchema(fieldProps.schema, options) : z.object({}).passthrough()\<close>.\<close>

definition zodBaseType :: "jsval \<Rightarrow> error + zod \<Rightarrow> error + zod" where
  "zodBaseType fieldProps nested =
     and_then (getProp fieldProps ''type'') (\<lambda>t.
       if t = JCtor String_ctor then Inr (ZodString [])
       else if t = JCtor Number_ctor then Inr (ZodNumber [])
       else if t = JCtor Boolean_ctor then Inr ZodBoolean
       else if t = JCtor Date_ctor then Inr ZodDate
       else if t = JCtor Array_ctor then Inr (zodArrayType fieldProps)
       else if t = JCtor Object_ctor then Inr openObject
       else if t = JCtor Map_ctor then Inr stringMap
       else
         (let typeStr = typeStr_of t in
          if typeStr = ''string'' then Inr (ZodString [])
          else if typeStr = ''number'' then Inr (ZodNumber [])
          else if typeStr = ''boolean'' then Inr ZodBoolean
          else if typeStr = ''date'' then Inr ZodDate
          else if typeStr = ''array'' then Inr (zodArrayType fieldProps)
          else if typeStr = ''objectid'' \<or> typeStr = ''object_id'' then Inr objectIdValidator
          else if typeStr = ''object'' then nested
          else if typeStr = ''mixed'' then Inr ZodAny
          else if typeStr = ''map'' then Inr stringMap
          else Inl (Error (''Invalid type: '' @ js_to_string t))))"

text \<open>\<^verbatim>\<open>propValue instanceof RegExp ? propValue : new RegExp(propValue)\<close>\<close>

definition toRegExp :: "env \<Rightarrow> jsval \<Rightarrow> error + string \<times> string" where
  "toRegExp env propValue =
     (case propValue of
        JRegExp src flags \<Rightarrow> Inr (src, flags)
      | _ \<Rightarrow>
          (let pattern = (if propValue = JUndefined then [] else js_to_string propValue) in
           if regexp_valid env pattern
           then Inr (if pattern = [] then ''(?:)'' else pattern, [])
           else Inl SyntaxError))"

text \<open>\<^verbatim>\<open>regex.toString()\<close>\<close>

definition regexString :: "string \<times> string \<Rightarrow> string" where
  "regexString r = ''/'' @ fst r @ ''/'' @ snd r"

definition backslash :: char where
  "backslash = char_of (92 :: nat)"

text \<open>The message the \<^verbatim>\<open>regex\<close> case writes when \<^verbatim>\<open>getCustomMessage\<close> gave none. The
  two pattern fragments it looks for are \<^verbatim>\<open>(?=.*\d)\<close> and \<^verbatim>\<open>\d\<close>.\<close>

definition regexMessage :: "string \<Rightarrow> string \<Rightarrow> string" where
  "regexMessage fieldName regexStr =
     (let name = toLowerCase fieldName in
      if includes_str name ''email'' \<or> includes_str regexStr ''@'' then
        fieldName @ '' must be a valid email address''
      else if includes_str name ''password''
              \<or> includes_str regexStr (''(?=.*'' @ [backslash] @ ''d)'') then
        fieldName @ '' must contain at least one lowercase letter, one uppercase letter, one number, and one special character.''
      else if includes_str name ''phone'' \<or> includes_str regexStr [backslash, CHR ''d''] then
        fieldName @ '' must be a valid phone number''
      else if includes_str name ''url'' \<or> includes_str regexStr ''http'' then
        fieldName @ '' must be a valid URL''
      else fieldName @ '' format is invalid'')"

text \<open>Step 2, one round of the loop over \<^verbatim>\<open>Object.entries(fieldProps)\<close>: the modifier
  \<open>p\<close> applied to the validator built so far.\<close>

definition zodProp :: "env \<Rightarrow> string \<Rightarrow> jsval \<Rightarrow> zod \<Rightarrow> string \<times> jsval \<Rightarrow> error + zod" where
  "zodProp env fieldName customMessages zodValidator p =
     (let propName = fst p; propValue = snd p in
      if propName = ''type'' \<or> propName = ''items'' then Inr zodValidator
      else if propName = ''required'' then
        Inr (if propValue = JBool False then ZodOptional zodValidator else zodValidator)
      else if propName = ''minlength'' \<or> propName = ''minLength'' then
        (if def_type_is env zodValidator ''string'' then
           and_then (getCustomMessage fieldName ''minlength'' propValue customMessages) (\<lambda>m.
             Inr (add_check zodValidator
                    (MinCheck propValue
                       (js_or m (JStr (fieldName @ '' must be at least '' @ js_to_string propValue
                                       @ '' characters long''))))))
         else Inr zodValidator)
      else if propName = ''maxlength'' \<or> propName = ''maxLength'' then
        (if def_type_is env zodValidator ''string'' then
           and_then (getCustomMessage fieldName ''maxlength'' propValue customMessages) (\<lambda>m.
             Inr (add_check zodValidator
                    (MaxCheck propValue
                       (js_or m (JStr (fieldName @ '' must be at most '' @ js_to_string propValue
                                       @ '' characters long''))))))
         else Inr zodValidator)
      else if propName = ''min'' then
        Inr (if def_type_is env zodValidator ''number'' then
               add_check zodValidator
                 (MinCheck propValue
                    (JStr (''Min value for '' @ fieldName @ '' is '' @ js_to_string propValue)))
             else if def_type_is env zodValidator ''array'' then
               add_check zodValidator
                 (MinCheck propValue
                    (JStr (''Array '' @ fieldName @ '' must have at least ''
                           @ js_to_string propValue @ '' items'')))
             else zodValidator)
      else if propName = ''max'' then
        Inr (if def_type_is env zodValidator ''number'' then
               add_check zodValidator
                 (MaxCheck propValue
                    (JStr (''Max value for '' @ fieldName @ '' is '' @ js_to_string propValue)))
             else if def_type_is env zodValidator ''array'' then
               add_check zodValidator
                 (MaxCheck propValue
                    (JStr (''Array '' @ fieldName @ '' must have at most ''
                           @ js_to_string propValue @ '' items'')))
             else zodValidator)
      else if propName = ''email'' then
        Inr (if propValue = JBool True \<and> def_type_is env zodValidator ''string'' then
               add_check zodValidator (EmailCheck (JStr (''Invalid email format for '' @ fieldName)))
             else zodValidator)
      else if propName = ''enum'' then
        (if isArray propValue then
           and_then (lowerCaseEnum propValue) (\<lambda>lowered.
             Inr (refine env (ZodString [ToLowerCase]) lowered (enumMessage fieldName propValue)))
         else Inr zodValidator)
      else if propName = ''regex'' \<or> propName = ''match'' then
        (if def_type_is env zodValidator ''string'' then
           and_then (toRegExp env propValue) (\<lambda>regex.
           and_then (getCustomMessage fieldName ''regex'' propValue customMessages) (\<lambda>m.
             Inr (add_check zodValidator
                    (RegexCheck (Pattern (fst regex) (snd regex))
                       (if truthy m then m
                        else JStr (regexMessage fieldName (regexString regex)))))))
         else Inr zodValidator)
      else if propName = ''default'' then
        Inr (if propValue \<noteq> JUndefined then ZodDefault zodValidator propValue else zodValidator)
      else if propName = ''unique'' then Inr zodValidator
      else if propName = ''ref'' then
        Inr (if def_typeName_is env zodValidator ''ZodString'' then objectIdValidator
             else zodValidator)
      else Inr zodValidator)"

fun zodProps ::
  "env \<Rightarrow> string \<Rightarrow> jsval \<Rightarrow> zod \<Rightarrow> (string \<times> jsval) list \<Rightarrow> error + zod" where
  "zodProps env fieldName customMessages zodValidator [] = Inr zodValidator"
| "zodProps env fieldName customMessages zodValidator (p # ps) =
     and_then (zodProp env fieldName customMessages zodValidator p) (\<lambda>v.
       zodProps env fieldName customMessages v ps)"

text \<open>Step 3: the default password pattern.\<close>

definition passwordMessage :: "string \<Rightarrow> jsval" where
  "passwordMessage fieldName =
     JStr (fieldName @ '' must contain at least one lowercase letter, one uppercase letter, one number, and one special character (@$!%*?&#).'')"

definition passwordStep :: "env \<Rightarrow> string \<Rightarrow> jsval \<Rightarrow> zod \<Rightarrow> zod" where
  "passwordStep env fieldName fieldProps zodValidator =
     (if includes_str (toLowerCase fieldName) ''password''
         \<and> getPropOpt fieldProps ''regex'' = JUndefined
         \<and> def_type_is env zodValidator ''string''
      then add_check zodValidator (RegexCheck PasswordPattern (passwordMessage fieldName))
      else zodValidator)"

text \<open>Step 4: a field with a default that is not explicitly required is optional.\<close>

definition defaultStep :: "jsval \<Rightarrow> zod \<Rightarrow> zod" where
  "defaultStep fieldProps zodValidator =
     (if getPropOpt fieldProps ''default'' \<noteq> JUndefined
         \<and> getPropOpt fieldProps ''required'' \<noteq> JBool True
      then ZodOptional zodValidator else zodValidator)"

text \<open>The body of the loop over the fields. Steps 3 and 4 read \<^verbatim>\<open>fieldProps.regex\<close>,
  \<^verbatim>\<open>fieldProps.default\<close> and \<^verbatim>\<open>fieldProps.required\<close> after step 1 has read
  \<^verbatim>\<open>fieldProps.type\<close>, so these reads cannot throw.\<close>

definition zodField :: "env \<Rightarrow> jsval \<Rightarrow> string \<Rightarrow> jsval \<Rightarrow> error + zod \<Rightarrow> error + zod" where
  "zodField env customMessages fieldName fieldProps nested =
     (if isArray fieldProps then zodArrayShorthand env fieldName fieldProps
      else
        and_then (zodBaseType fieldProps nested) (\<lambda>base.
        and_then (zodProps env fieldName customMessages base (own_entries fieldProps)) (\<lambda>v.
          Inr (defaultStep fieldProps (passwordStep env fieldName fieldProps v)))))"

text \<open>A measure for the recursion through nested schemas.\<close>

fun jsize :: "jsval \<Rightarrow> nat" where
  "jsize (JArr xs) = Suc (sum_list (map jsize xs))"
| "jsize (JObj es) = Suc (sum_list (map (\<lambda>e. jsize (snd e)) es))"
| "jsize v = 0"

definition compile_order ::
  "((env \<times> jsval \<times> jsval) + (env \<times> jsval \<times> jsval \<times> (string \<times> jsval) list \<times> (string \<times> zod) list)) rel"
where
  "compile_order =
     measures
       [\<lambda>x. case x of
               Inl (env, sd, opts) \<Rightarrow> 2 * jsize sd + 1
             | Inr (env, opts, cm, es, acc) \<Rightarrow> 2 * sum_list (map (\<lambda>e. jsize (snd e)) es),
        \<lambda>x. case x of Inl _ \<Rightarrow> 0 | Inr (env, opts, cm, es, acc) \<Rightarrow> length es]"

text \<open>\<^verbatim>\<open>createZodSchema(schemaDefinition, options = {})\<close> and its loop over
  \<^verbatim>\<open>Object.entries(schemaDefinition)\<close>; \<open>zodSchemaObject\<close> is the object under
  construction. The nested call is handed the caller's \<open>options\<close> unchanged.\<close>

function createZodSchema :: "env \<Rightarrow> jsval \<Rightarrow> jsval \<Rightarrow> error + zod"
  and zodFields ::
    "env \<Rightarrow> jsval \<Rightarrow> jsval \<Rightarrow> (string \<times> jsval) list \<Rightarrow> (string \<times> zod) list
     \<Rightarrow> error + (string \<times> zod) list"
where
  "createZodSchema env schemaDefinition options0 =
     (let options = orDefault options0 (JObj []) in
      case getProp options ''customMessages'' of
        Inl e \<Rightarrow> Inl e
      | Inr cm \<Rightarrow>
          (case objectEntries schemaDefinition of
             Inl e \<Rightarrow> Inl e
           | Inr entries \<Rightarrow>
               (case zodFields env options0 (orDefault cm (JObj [])) entries [] of
                  Inl e \<Rightarrow> Inl e
                | Inr zodSchemaObject \<Rightarrow> Inr (ZodObject zodSchemaObject False None))))"
| "zodFields env options customMessages [] zodSchemaObject = Inr zodSchemaObject"
| "zodFields env options customMessages ((fieldName, fieldProps) # rest) zodSchemaObject =
     (case zodField env customMessages fieldName fieldProps
             (let schema = getPropOpt fieldProps ''schema''
              in if truthy schema then createZodSchema env schema options else Inr openObject) of
        Inl e \<Rightarrow> Inl e
      | Inr zodValidator \<Rightarrow>
          zodFields env options customMessages rest (obj_set zodSchemaObject fieldName zodValidator))"
  by pat_completeness auto

termination createZodSchema
proof (relation compile_order)
  have digit: "show_nat n \<noteq> ''schema''" for n
  proof -
    have "last (show_nat n) = digit_char (n mod 10)"
      by (subst show_nat.simps) simp
    moreover have "digit_char (n mod 10) \<noteq> CHR ''a''"
    proof
      assume "digit_char (n mod 10) = CHR ''a''"
      then have "(of_char (digit_char (n mod 10)) :: nat) = of_char (CHR ''a'')" by simp
      moreover have "n mod 10 < 10" by simp
      ultimately show False by (simp add: digit_char_def)
    qed
    ultimately show ?thesis by auto
  qed
  have idx_sum: "map (\<lambda>e. jsize (snd e)) (indexed xs) = map jsize xs" for xs :: "jsval list"
    by (rule nth_equalityI) (simp_all add: indexed_def)
  have idx_none: "map_of (indexed xs) ''schema'' = None" for xs :: "jsval list"
    using digit by (auto simp: indexed_def map_of_eq_None_iff dest: sym)
  have entries_le: "sum_list (map (\<lambda>e. jsize (snd e)) (own_entries v)) \<le> jsize v" for v
    by (cases v) (simp_all add: own_entries_def idx_sum o_def)
  have mem_le: "map_of es k = Some s \<Longrightarrow> jsize s \<le> sum_list (map (\<lambda>e. jsize (snd e)) es)"
    for es :: "(string \<times> jsval) list" and k s
    by (induction es) (auto split: if_splits)
  have schema_lt: "truthy (getPropOpt fp ''schema'') \<Longrightarrow> jsize (getPropOpt fp ''schema'') < jsize fp" for fp
    apply (cases fp)
    apply (auto simp: getPropOpt_def getProp_def own_entries_def truthy_def idx_none split: option.splits dest!: mem_le)
    done
  show "wf compile_order" by (simp add: compile_order_def)
  show "(Inr (env, options0, orDefault cm (JObj []), es, []), Inl (env, sd, options0)) \<in> compile_order"
    if "objectEntries sd = Inr es" for env options0 cm es sd
    using that entries_le [of sd] by (auto simp: compile_order_def objectEntries_def split: if_splits)
  show "(Inl (env, x, options), Inr (env, options, customMessages, (fieldName, fieldProps) # rest, acc))
          \<in> compile_order"
    if "x = getPropOpt fieldProps ''schema''" "truthy x"
    for env options customMessages fieldName fieldProps rest acc x
    using that schema_lt [of fieldProps] by (auto simp: compile_order_def)
  show "(Inr (env, options, customMessages, rest, acc'), Inr (env, options, customMessages, (fieldName, fieldProps) # rest, acc))
          \<in> compile_order"
    for env options customMessages fieldName fieldProps rest acc acc'
    by (auto simp: compile_order_def)
qed

text \<open>The validator one round of the loop over the fields stores under \<open>fieldName\<close>: the loop
  body with the nested call it makes.\<close>

definition fieldValidator :: "env \<Rightarrow> jsval \<Rightarrow> jsval \<Rightarrow> string \<Rightarrow> jsval \<Rightarrow> error + zod" where
  "fieldValidator env options customMessages fieldName fieldProps =
     zodField env customMessages fieldName fieldProps
       (let schema = getPropOpt fieldProps ''schema''
        in if truthy schema then createZodSchema env schema options else Inr openObject)"

section \<open>The error normalizer\<close>

text \<open>\<^verbatim>\<open>errorList.map(...)\<close> and \<^verbatim>\<open>err.path.join('.')\<close> are calls of array methods: on a
  truthy value that is no array they throw a \<^verbatim>\<open>TypeError\<close> (an object that brings a
  \<^verbatim>\<open>map\<close> or \<^verbatim>\<open>join\<close> function of its own is not modelled).\<close>

definition normalizeEntry :: "jsval \<Rightarrow> error + jsval" where
  "normalizeEntry err =
     and_then (getProp err ''path'') (\<lambda>path.
     and_then (if truthy path then
                 (case path of JArr segs \<Rightarrow> Inr (JStr (array_join segs ''.'')) | _ \<Rightarrow> Inl TypeError)
               else Inr (JStr ''unknown'')) (\<lambda>field.
       Inr (JObj [(''field'', field),
                  (''message'', js_or (getPropOpt err ''message'') (JStr ''Validation failed'')),
                  (''code'', js_or (getPropOpt err ''code'') (JStr ''unknown'')),
                  (''value'', js_or (getPropOpt err ''input'') (getPropOpt err ''received'')),
                  (''type'', js_or (getPropOpt err ''expected'')
                               (js_or (getPropOpt err ''format'') (JStr ''unknown'')))])))"

fun normalizeEntries :: "jsval list \<Rightarrow> error + jsval list" where
  "normalizeEntries [] = Inr []"
| "normalizeEntries (err # errs) =
     and_then (normalizeEntry err) (\<lambda>r.
     and_then (normalizeEntries errs) (\<lambda>rs. Inr (r # rs)))"

definition normalizeZodErrors :: "jsval \<Rightarrow> error + jsval" where
  "normalizeZodErrors error =
     and_then (getProp error ''issues'') (\<lambda>issues.
     and_then (getProp error ''errors'') (\<lambda>errors.
       (case js_or issues (js_or errors (JArr [])) of
          JArr errorList \<Rightarrow> and_then (normalizeEntries errorList) (\<lambda>rs. Inr (JArr rs))
        | _ \<Rightarrow> Inl TypeError)))"

section \<open>The schema-pair entry point and its cache\<close>

text \<open>The module keeps one \<^verbatim>\<open>Map\<close> from cache keys to compiled pairs. A compiled pair is
  an object with an identity: the state holds the objects allocated so far, and a
  reference is an index into them. \<^verbatim>\<open>JSON.stringify\<close> is a parameter.\<close>

record compiled_pair =
  mongooseSchema :: mongoose_schema
  zodSchema :: zod

record module_state =
  schemaCache :: "(string \<times> nat) list"
  objects :: "compiled_pair list"

definition generateCacheKey :: "(jsval \<Rightarrow> string) \<Rightarrow> jsval \<Rightarrow> jsval \<Rightarrow> string" where
  "generateCacheKey stringify schemaDefinition options0 =
     stringify (JObj [(''schemaDefinition'', schemaDefinition),
                      (''options'', orDefault options0 (JObj []))])"

text \<open>\<^verbatim>\<open>const { enableCache = true, ...schemaOptions } = options\<close>: the rest object takes
  the other own entries.\<close>

definition restWithout :: "string \<Rightarrow> jsval \<Rightarrow> jsval" where
  "restWithout k v = JObj (filter (\<lambda>e. fst e \<noteq> k) (own_entries v))"

definition createSchemas ::
  "env \<Rightarrow> (jsval \<Rightarrow> string) \<Rightarrow> module_state \<Rightarrow> jsval \<Rightarrow> jsval \<Rightarrow> module_state \<times> (error + nat)" where
  "createSchemas env stringify st schemaDefinition options0 =
     (let options = orDefault options0 (JObj []) in
      case getProp options ''enableCache'' of
        Inl e \<Rightarrow> (st, Inl e)
      | Inr ec \<Rightarrow>
          (let enableCache = orDefault ec (JBool True);
               schemaOptions = restWithout ''enableCache'' options;
               cacheKey = generateCacheKey stringify schemaDefinition schemaOptions
           in
           if truthy enableCache \<and> map_of (schemaCache st) cacheKey \<noteq> None
           then (st, Inr (the (map_of (schemaCache st) cacheKey)))
           else
             (case createMongooseSchema schemaDefinition schemaOptions of
                Inl e \<Rightarrow> (st, Inl e)
              | Inr m \<Rightarrow>
                  (case createZodSchema env schemaDefinition schemaOptions of
                     Inl e \<Rightarrow> (st, Inl e)
                   | Inr z \<Rightarrow>
                       (let result = length (objects st);
                            st1 = st \<lparr> objects := objects st @ [\<lparr> mongooseSchema = m, zodSchema = z \<rparr>] \<rparr>
                        in
                        if truthy enableCache
                        then (st1 \<lparr> schemaCache := obj_set (schemaCache st1) cacheKey result \<rparr>, Inr result)
                        else (st1, Inr result))))))"

text \<open>The states the module can be in after any number of further calls of the entry
  point, whatever their arguments and whether they return or throw.\<close>

inductive calls :: "env \<Rightarrow> (jsval \<Rightarrow> string) \<Rightarrow> module_state \<Rightarrow> module_state \<Rightarrow> bool"
  for env :: env and stringify :: "jsval \<Rightarrow> string"
where
  calls_none: "calls env stringify st st"
| calls_more:
    "calls env stringify st st1 \<Longrightarrow> createSchemas env stringify st1 schemaDefinition options = (st2, res)
     \<Longrightarrow> calls env stringify st st2"

section \<open>Engines for the closed examples\<close>

text \<open>A closed example needs a concrete engine. These two, one of each library generation,
  take every pattern source for valid, let every caller-supplied pattern and the e-mail
  test match every string, and return a function-valued default as it is.\<close>

definition exampleZod4 :: env where
  "exampleZod4 =
     \<lparr> version = ZodV4, regexp_valid = (\<lambda>src. True), regexp_test = (\<lambda>src flags s. True),
       email_test = (\<lambda>s. True), call_default = (\<lambda>d. d) \<rparr>"

definition exampleZod3 :: env where
  "exampleZod3 =
     \<lparr> version = ZodV3, regexp_valid = (\<lambda>src. True), regexp_test = (\<lambda>src flags s. True),
       email_test = (\<lambda>s. True), call_default = (\<lambda>d. d) \<rparr>"

section \<open>Partial correctness of a computation that can throw\<close>

text \<open>\<open>yields r P\<close>: when the computation returns, its result satisfies \<open>P\<close>.\<close>

definition yields :: "error + 'a \<Rightarrow> ('a \<Rightarrow> bool) \<Rightarrow> bool" where
  "yields r P = (case r of Inl e \<Rightarrow> True | Inr x \<Rightarrow> P x)"

section \<open>Optional and default wrappers\<close>




section \<open>Basic facts\<close>

lemma and_then_Inr [simp]: "and_then (Inr x) f = f x"
  by (simp add: and_then_def)

lemma and_then_Inl [simp]: "and_then (Inl e) f = Inl e"
  by (simp add: and_then_def)

lemma and_then_eq_Inr: "and_then r f = Inr y \<longleftrightarrow> (\<exists>x. r = Inr x \<and> f x = Inr y)"
  by (cases r) simp_all

lemma map_of_obj_set: "map_of (obj_set es k v) = (map_of es)(k \<mapsto> v)"
  by (induction es) (auto simp: fun_eq_iff)

section \<open>The persistence field configuration\<close>

lemma mongooseItems_enum: "map_of (mongooseItems cfg pv) ''enum'' = map_of cfg ''enum''"
  by (simp add: mongooseItems_def Let_def map_of_obj_set)

lemma map_of_if_branches:
  "(c \<Longrightarrow> map_of a k = r) \<Longrightarrow> map_of b k = r \<Longrightarrow> map_of (if c then a else b) k = r"
  by simp

lemma mongooseProp_other:
  "fst p \<noteq> ''enum'' \<Longrightarrow> map_of (mongooseProp cfg p) ''enum'' = map_of cfg ''enum''"
  unfolding mongooseProp_def Let_def
  by (intro map_of_if_branches) (simp_all add: map_of_obj_set mongooseItems_enum split: jsval.split)

lemma mongooseProp_enum:
  "map_of (mongooseProp cfg (''enum'', v)) ''enum'' = (if isArray v then Some v else map_of cfg ''enum'')"
  by (simp add: mongooseProp_def map_of_obj_set)

lemma mongooseProps_other:
  "''enum'' \<notin> fst ` set es \<Longrightarrow> map_of (foldl mongooseProp cfg es) ''enum'' = map_of cfg ''enum''"
  by (induction es arbitrary: cfg) (auto simp: mongooseProp_other)

lemma mongooseProps_enum:
  "distinct (map fst es) \<Longrightarrow> map_of es ''enum'' = Some v \<Longrightarrow>
   map_of (foldl mongooseProp cfg es) ''enum'' = (if isArray v then Some v else map_of cfg ''enum'')"
proof (induction es arbitrary: cfg)
  case Nil
  then show ?case by simp
next
  case (Cons p es)
  show ?case
  proof (cases "fst p = ''enum''")
    case True
    with Cons.prems have v: "snd p = v" and rest: "''enum'' \<notin> fst ` set es"
      by (auto simp: image_iff)
    from True v have p: "p = (''enum'', v)" by (cases p) simp
    show ?thesis
      using rest by (simp add: mongooseProps_other p mongooseProp_enum)
  next
    case False
    with Cons.prems have "map_of es ''enum'' = Some v" "distinct (map fst es)"
      by (auto split: if_splits)
    then show ?thesis
      using Cons.IH [of "mongooseProp cfg p"] False by (simp add: mongooseProp_other)
  qed
qed

text \<open>
  C4 (amended). The persistence field compiler copies an \<^verbatim>\<open>enum\<close> modifier whose value is
  an array into the field configuration, unchanged; an \<^verbatim>\<open>enum\<close> that is no array is not
  copied, and a field definition without \<^verbatim>\<open>enum\<close> gets no \<^verbatim>\<open>enum\<close> entry.
\<close>

theorem persistence_enum_copied:
  assumes "distinct (map fst fieldProps)"
  shows "\<exists>fieldConfig. mongooseFieldConfig (JObj fieldProps) = Inr fieldConfig
           \<and> map_of fieldConfig ''enum''
               = (case map_of fieldProps ''enum'' of
                    Some v \<Rightarrow> if isArray v then Some v else None
                  | None \<Rightarrow> None)"
proof (cases "map_of fieldProps ''enum''")
  case None
  then have "''enum'' \<notin> fst ` set fieldProps" by (simp add: map_of_eq_None_iff)
  then show ?thesis
    using None by (simp add: mongooseFieldConfig_def getProp_def own_entries_def mongooseProps_other)
next
  case (Some v)
  then show ?thesis
    using assms by (simp add: mongooseFieldConfig_def getProp_def own_entries_def mongooseProps_enum)
qed

theorem persistence_enum_copied_witness:
  "\<exists>fieldConfig.
     mongooseFieldConfig (JObj [(''type'', JStr ''String''), (''enum'', JArr [JStr ''user'', JStr ''admin''])])
       = Inr fieldConfig
     \<and> map_of fieldConfig ''enum'' = Some (JArr [JStr ''user'', JStr ''admin''])"
  using persistence_enum_copied [of "[(''type'', JStr ''String''), (''enum'', JArr [JStr ''user'', JStr ''admin''])]"]
  by (simp add: isArray_def)

text \<open>C4 as stated fails: the configuration compiled for
  \<^verbatim>\<open>{type: 'String', enum: ['user', 'admin']}\<close> has the \<^verbatim>\<open>enum\<close> entry.\<close>

theorem persistence_enum_counterexample:
  "mongooseFieldConfig (JObj [(''type'', JStr ''String''), (''enum'', JArr [JStr ''user'', JStr ''admin''])])
     = Inr [(''type'', JCtor String_ctor), (''enum'', JArr [JStr ''user'', JStr ''admin''])]"
  by code_simp

section \<open>The options of the persistence schema\<close>

lemma spread_lookup:
  "distinct (map fst so) \<Longrightarrow>
   map_of (foldl (\<lambda>acc (k, x). obj_set acc k x) base so) k
     = (case map_of so k of Some v \<Rightarrow> Some v | None \<Rightarrow> map_of base k)"
proof (induction so arbitrary: base)
  case Nil
  then show ?case by simp
next
  case (Cons e so)
  obtain k' v' where e: "e = (k', v')" by (cases e)
  from Cons.prems e have d: "distinct (map fst so)" and n: "map_of so k' = None"
    by (auto simp: map_of_eq_None_iff)
  show ?case
    using Cons.IH [OF d, of "obj_set base k' v'"] n
    by (auto simp: e map_of_obj_set split: option.splits)
qed

lemma createMongooseSchema_options:
  assumes "createMongooseSchema sd options = Inr sch"
  shows "schema_options sch
           = spread [(''timestamps'', JBool True)]
               (orDefault (getPropOpt (orDefault options (JObj [])) ''schemaOptions'') (JObj []))"
  using assms
  by (auto simp: createMongooseSchema_def Let_def and_then_eq_Inr getPropOpt_def)

text \<open>
  C10. The options handed to the storage engine are \<^verbatim>\<open>{ timestamps: true, ...schemaOptions }\<close>:
  without \<^verbatim>\<open>schemaOptions\<close> they are exactly \<^verbatim>\<open>timestamps: true\<close>; with a
  \<^verbatim>\<open>schemaOptions\<close> object every entry of it is forwarded with its value, an entry under
  the key \<^verbatim>\<open>timestamps\<close> included (it replaces the default), and \<^verbatim>\<open>timestamps\<close> is
  \<^verbatim>\<open>true\<close> when the caller gave no such entry.
\<close>

theorem timestamps_default:
  "(createMongooseSchema sd options = Inr sch
      \<and> getPropOpt (orDefault options (JObj [])) ''schemaOptions'' = JUndefined
    \<longrightarrow> schema_options sch = [(''timestamps'', JBool True)])
   \<and> (createMongooseSchema sd options = Inr sch
      \<and> getPropOpt (orDefault options (JObj [])) ''schemaOptions'' = JObj so
      \<and> distinct (map fst so)
    \<longrightarrow> map_of (schema_options sch) k
          = (case map_of so k of
               Some v \<Rightarrow> Some v
             | None \<Rightarrow> if k = ''timestamps'' then Some (JBool True) else None))"
  by (auto simp: createMongooseSchema_options spread_def orDefault_def own_entries_def spread_lookup
           split: option.splits)

theorem timestamps_default_witness:
  "schema_options
     (projr (createMongooseSchema (JObj [(''name'', JObj [(''type'', JStr ''String'')])]) JUndefined))
     = [(''timestamps'', JBool True)]
   \<and> map_of (schema_options
        (projr (createMongooseSchema (JObj [(''name'', JObj [(''type'', JStr ''String'')])])
                 (JObj [(''schemaOptions'', JObj [(''versionKey'', JBool False), (''timestamps'', JBool False)])]))))
        ''timestamps'' = Some (JBool False)"
proof -
  have a: "createMongooseSchema (JObj [(''name'', JObj [(''type'', JStr ''String'')])]) JUndefined
    = Inr (projr (createMongooseSchema (JObj [(''name'', JObj [(''type'', JStr ''String'')])]) JUndefined))"
    by code_simp
  have b: "createMongooseSchema (JObj [(''name'', JObj [(''type'', JStr ''String'')])])
                 (JObj [(''schemaOptions'', JObj [(''versionKey'', JBool False), (''timestamps'', JBool False)])])
    = Inr (projr (createMongooseSchema (JObj [(''name'', JObj [(''type'', JStr ''String'')])])
                 (JObj [(''schemaOptions'', JObj [(''versionKey'', JBool False), (''timestamps'', JBool False)])])))"
    by code_simp
  have c: "getPropOpt (orDefault JUndefined (JObj [])) ''schemaOptions'' = JUndefined"
    by code_simp
  have d: "getPropOpt (orDefault (JObj [(''schemaOptions'', JObj [(''versionKey'', JBool False), (''timestamps'', JBool False)])]) (JObj [])) ''schemaOptions''
     = JObj [(''versionKey'', JBool False), (''timestamps'', JBool False)]"
    by code_simp
  show ?thesis
    using timestamps_default [of "JObj [(''name'', JObj [(''type'', JStr ''String'')])]" JUndefined _ _ "''timestamps''", THEN conjunct1] a b c d
      timestamps_default [of "JObj [(''name'', JObj [(''type'', JStr ''String'')])]" "JObj [(''schemaOptions'', JObj [(''versionKey'', JBool False), (''timestamps'', JBool False)])]" _ "[(''versionKey'', JBool False), (''timestamps'', JBool False)]" "''timestamps''", THEN conjunct2]
    by simp
qed

section \<open>Type resolution\<close>

lemma mongooseType_alias:
  "mongooseType (JStr s) =
     (let typeStr = toLowerCase s in
      if typeStr = ''string'' then JCtor String_ctor
      else if typeStr = ''number'' then JCtor Number_ctor
      else if typeStr = ''boolean'' then JCtor Boolean_ctor
      else if typeStr = ''date'' then JCtor Date_ctor
      else if typeStr = ''array'' then JCtor Array_ctor
      else if typeStr = ''objectid'' \<or> typeStr = ''object_id'' then JCtor ObjectId_ctor
      else if typeStr = ''mixed'' then JCtor Mixed_ctor
      else if typeStr = ''object'' then JCtor Mixed_ctor
      else JStr s)"
  by (simp add: mongooseType_def typeStr_of_def)

lemma mongooseType_case_insensitive:
  assumes "toLowerCase s = toLowerCase t"
    and "toLowerCase s \<in> {''string'', ''number'', ''boolean'', ''date'', ''array'', ''objectid'',
                            ''object_id'', ''mixed'', ''object''}"
  shows "mongooseType (JStr s) = mongooseType (JStr t)"
  using assms by (simp only: mongooseType_alias Let_def) auto

lemma mongooseType_idem: "mongooseType (mongooseType x) = mongooseType x"
proof (cases "\<exists>s. x = JStr s")
  case True
  then obtain s where "x = JStr s" by blast
  then show ?thesis
    by (simp add: mongooseType_alias Let_def) (simp add: mongooseType_def typeStr_of_def)
next
  case False
  then have "typeStr_of x = []" by (cases x) (simp_all add: typeStr_of_def)
  then show ?thesis by (simp add: mongooseType_def)
qed

lemma zodArrayType_type:
  "zodArrayType (JObj ((''type'', x) # fp)) = zodArrayType (JObj fp)"
  by (simp add: zodArrayType_def getPropOpt_def getProp_def own_entries_def split: option.split)

lemma zodBaseType_alias:
  "zodBaseType (JObj ((''type'', JStr s) # fp)) nested =
     (let typeStr = toLowerCase s in
      if typeStr = ''string'' then Inr (ZodString [])
      else if typeStr = ''number'' then Inr (ZodNumber [])
      else if typeStr = ''boolean'' then Inr ZodBoolean
      else if typeStr = ''date'' then Inr ZodDate
      else if typeStr = ''array'' then Inr (zodArrayType (JObj fp))
      else if typeStr = ''objectid'' \<or> typeStr = ''object_id'' then Inr objectIdValidator
      else if typeStr = ''object'' then nested
      else if typeStr = ''mixed'' then Inr ZodAny
      else if typeStr = ''map'' then Inr stringMap
      else Inl (Error (''Invalid type: '' @ s)))"
  by (simp add: zodBaseType_def getProp_def own_entries_def typeStr_of_def zodArrayType_type Let_def)

lemma zodBaseType_case_insensitive:
  assumes "toLowerCase s = toLowerCase t"
    and "toLowerCase s \<in> {''string'', ''number'', ''boolean'', ''date'', ''array'', ''objectid'',
                            ''object_id'', ''mixed'', ''object'', ''map''}"
  shows "zodBaseType (JObj ((''type'', JStr s) # fp)) nested
           = zodBaseType (JObj ((''type'', JStr t) # fp)) nested"
  using assms by (simp only: zodBaseType_alias Let_def) auto

lemma zodBaseType_ctor:
  "zodBaseType (JObj ((''type'', JCtor c) # fp)) nested =
     (case c of
        String_ctor \<Rightarrow> Inr (ZodString [])
      | Number_ctor \<Rightarrow> Inr (ZodNumber [])
      | Boolean_ctor \<Rightarrow> Inr ZodBoolean
      | Date_ctor \<Rightarrow> Inr ZodDate
      | Array_ctor \<Rightarrow> Inr (zodArrayType (JObj fp))
      | Object_ctor \<Rightarrow> Inr openObject
      | Map_ctor \<Rightarrow> Inr stringMap
      | _ \<Rightarrow> Inl (Error ''Invalid type: function''))"
  by (cases c)
     (simp_all add: zodBaseType_def getProp_def own_entries_def typeStr_of_def zodArrayType_type)

lemma lower_names:
  "toLowerCase ''string'' = ''string''" "toLowerCase ''number'' = ''number''"
  "toLowerCase ''boolean'' = ''boolean''" "toLowerCase ''date'' = ''date''"
  "toLowerCase ''array'' = ''array''" "toLowerCase ''map'' = ''map''"
  "toLowerCase ''object'' = ''object''"
  by code_simp+

text \<open>
  C6 (amended). Type resolution ignores the casing of a string token for the aliases each
  compiler has: on the persistence side \<^verbatim>\<open>string\<close>, \<^verbatim>\<open>number\<close>, \<^verbatim>\<open>boolean\<close>,
  \<^verbatim>\<open>date\<close>, \<^verbatim>\<open>array\<close>, \<^verbatim>\<open>objectid\<close>, \<^verbatim>\<open>object_id\<close>, \<^verbatim>\<open>mixed\<close> and
  \<^verbatim>\<open>object\<close>; on the validation side these and \<^verbatim>\<open>map\<close>. Persistence-side resolution
  is idempotent on every token. On the validation side the constructor constants
  \<^verbatim>\<open>String\<close>, \<^verbatim>\<open>Number\<close>, \<^verbatim>\<open>Boolean\<close>, \<^verbatim>\<open>Date\<close>, \<^verbatim>\<open>Array\<close> and \<^verbatim>\<open>Map\<close>
  resolve to the base rule of their names, and so does \<^verbatim>\<open>Object\<close> for a field without a
  nested schema.
\<close>

theorem type_resolution:
  "(toLowerCase s = toLowerCase t
      \<and> toLowerCase s \<in> {''string'', ''number'', ''boolean'', ''date'', ''array'', ''objectid'',
                          ''object_id'', ''mixed'', ''object''}
    \<longrightarrow> mongooseType (JStr s) = mongooseType (JStr t))
   \<and> mongooseType (mongooseType x) = mongooseType x
   \<and> (toLowerCase s = toLowerCase t
      \<and> toLowerCase s \<in> {''string'', ''number'', ''boolean'', ''date'', ''array'', ''objectid'',
                          ''object_id'', ''mixed'', ''object'', ''map''}
    \<longrightarrow> zodBaseType (JObj ((''type'', JStr s) # fp)) nested
          = zodBaseType (JObj ((''type'', JStr t) # fp)) nested)
   \<and> zodBaseType (JObj ((''type'', JCtor String_ctor) # fp)) nested
       = zodBaseType (JObj ((''type'', JStr ''string'') # fp)) nested
   \<and> zodBaseType (JObj ((''type'', JCtor Number_ctor) # fp)) nested
       = zodBaseType (JObj ((''type'', JStr ''number'') # fp)) nested
   \<and> zodBaseType (JObj ((''type'', JCtor Boolean_ctor) # fp)) nested
       = zodBaseType (JObj ((''type'', JStr ''boolean'') # fp)) nested
   \<and> zodBaseType (JObj ((''type'', JCtor Date_ctor) # fp)) nested
       = zodBaseType (JObj ((''type'', JStr ''date'') # fp)) nested
   \<and> zodBaseType (JObj ((''type'', JCtor Array_ctor) # fp)) nested
       = zodBaseType (JObj ((''type'', JStr ''array'') # fp)) nested
   \<and> zodBaseType (JObj ((''type'', JCtor Map_ctor) # fp)) nested
       = zodBaseType (JObj ((''type'', JStr ''map'') # fp)) nested
   \<and> zodBaseType (JObj ((''type'', JCtor Object_ctor) # fp)) (Inr openObject)
       = zodBaseType (JObj ((''type'', JStr ''object'') # fp)) (Inr openObject)"
proof -
  have p: "toLowerCase s = toLowerCase t
      \<and> toLowerCase s \<in> {''string'', ''number'', ''boolean'', ''date'', ''array'', ''objectid'',
                          ''object_id'', ''mixed'', ''object''}
    \<longrightarrow> mongooseType (JStr s) = mongooseType (JStr t)"
    using mongooseType_case_insensitive [of s t] by blast
  have v: "toLowerCase s = toLowerCase t
      \<and> toLowerCase s \<in> {''string'', ''number'', ''boolean'', ''date'', ''array'', ''objectid'',
                          ''object_id'', ''mixed'', ''object'', ''map''}
    \<longrightarrow> zodBaseType (JObj ((''type'', JStr s) # fp)) nested
          = zodBaseType (JObj ((''type'', JStr t) # fp)) nested"
    using zodBaseType_case_insensitive [of s t fp nested] by blast
  have c: "zodBaseType (JObj ((''type'', JCtor String_ctor) # fp)) nested
       = zodBaseType (JObj ((''type'', JStr ''string'') # fp)) nested"
    "zodBaseType (JObj ((''type'', JCtor Number_ctor) # fp)) nested
       = zodBaseType (JObj ((''type'', JStr ''number'') # fp)) nested"
    "zodBaseType (JObj ((''type'', JCtor Boolean_ctor) # fp)) nested
       = zodBaseType (JObj ((''type'', JStr ''boolean'') # fp)) nested"
    "zodBaseType (JObj ((''type'', JCtor Date_ctor) # fp)) nested
       = zodBaseType (JObj ((''type'', JStr ''date'') # fp)) nested"
    "zodBaseType (JObj ((''type'', JCtor Array_ctor) # fp)) nested
       = zodBaseType (JObj ((''type'', JStr ''array'') # fp)) nested"
    "zodBaseType (JObj ((''type'', JCtor Map_ctor) # fp)) nested
       = zodBaseType (JObj ((''type'', JStr ''map'') # fp)) nested"
    "zodBaseType (JObj ((''type'', JCtor Object_ctor) # fp)) (Inr openObject)
       = zodBaseType (JObj ((''type'', JStr ''object'') # fp)) (Inr openObject)"
    by (simp_all add: zodBaseType_ctor zodBaseType_alias lower_names)
  show ?thesis
    using p v c mongooseType_idem [of x] by blast
qed

theorem type_resolution_witness:
  "toLowerCase ''String'' = toLowerCase ''STRING''
   \<and> mongooseType (JStr ''String'') = mongooseType (JStr ''STRING'')
   \<and> zodBaseType (JObj [(''type'', JStr ''String'')]) (Inr openObject)
       = zodBaseType (JObj [(''type'', JStr ''STRING'')]) (Inr openObject)"
proof -
  have l: "toLowerCase ''String'' = ''string''" "toLowerCase ''STRING'' = ''string''"
    by code_simp+
  show ?thesis
    using type_resolution [of "''String''" "''STRING''" JUndefined "[]" "Inr openObject"] l
    by simp
qed

text \<open>C6 as stated fails. The persistence side has no \<^verbatim>\<open>map\<close> alias, so the token passes
  through with its casing; the validation side rejects the two storage-engine
  constants \<^verbatim>\<open>ObjectId\<close> and \<^verbatim>\<open>Mixed\<close>, which the persistence side resolves to.\<close>

theorem type_resolution_counterexample:
  "toLowerCase ''MAP'' = toLowerCase ''map''
   \<and> mongooseType (JStr ''MAP'') \<noteq> mongooseType (JStr ''map'')
   \<and> mongooseType (JStr ''objectid'') = JCtor ObjectId_ctor
   \<and> isl (zodBaseType (JObj [(''type'', JCtor ObjectId_ctor)]) (Inr openObject))
   \<and> isl (zodBaseType (JObj [(''type'', JCtor Mixed_ctor)]) (Inr openObject))"
  by code_simp

section \<open>Error normalization\<close>

lemma getProp_defined: "v \<noteq> JUndefined \<Longrightarrow> v \<noteq> JNull \<Longrightarrow> getProp v k = Inr (getPropOpt v k)"
  by (simp add: getPropOpt_def getProp_def)

lemma normalizeEntry_ok:
  assumes "err \<noteq> JUndefined" "err \<noteq> JNull"
    and "\<not> truthy (getPropOpt err ''path'') \<or> isArray (getPropOpt err ''path'')"
  shows "normalizeEntry err =
     Inr (JObj [(''field'', case getPropOpt err ''path'' of
                              JArr segs \<Rightarrow> JStr (array_join segs ''.'')
                            | _ \<Rightarrow> JStr ''unknown''),
                (''message'', js_or (getPropOpt err ''message'') (JStr ''Validation failed'')),
                (''code'', js_or (getPropOpt err ''code'') (JStr ''unknown'')),
                (''value'', js_or (getPropOpt err ''input'') (getPropOpt err ''received'')),
                (''type'', js_or (getPropOpt err ''expected'')
                             (js_or (getPropOpt err ''format'') (JStr ''unknown'')))])"
  using assms
  by (cases "getPropOpt err ''path''")
     (auto simp: normalizeEntry_def getProp_defined isArray_def truthy_def)

lemma normalizeEntries_ok:
  assumes "\<forall>err \<in> set errorList. normalizeEntry err = Inr (f err)"
  shows "normalizeEntries errorList = Inr (map f errorList)"
  using assms by (induction errorList) simp_all

text \<open>
  C7 (amended). For a failure object (anything but \<^verbatim>\<open>null\<close> and \<^verbatim>\<open>undefined\<close>) the
  normalizer reads \<^verbatim>\<open>issues\<close>, falling back to \<^verbatim>\<open>errors\<close>, falling back to the empty
  list. When what it reads is an array whose entries are neither \<^verbatim>\<open>null\<close> nor
  \<^verbatim>\<open>undefined\<close> and carry a \<^verbatim>\<open>path\<close> that is an array or falsy, it returns an array
  with one record per entry, in order: \<^verbatim>\<open>field\<close> is the path joined by dots, or
  \<^verbatim>\<open>'unknown'\<close> without a path; \<^verbatim>\<open>message\<close> defaults to \<^verbatim>\<open>'Validation failed'\<close>;
  \<^verbatim>\<open>code\<close> defaults to \<^verbatim>\<open>'unknown'\<close>; \<^verbatim>\<open>value\<close> is \<^verbatim>\<open>input\<close>, falling back to
  \<^verbatim>\<open>received\<close>; \<^verbatim>\<open>type\<close> is \<^verbatim>\<open>expected\<close>, falling back to \<^verbatim>\<open>format\<close>, falling
  back to \<^verbatim>\<open>'unknown'\<close>. Every fallback is taken when the value before it is falsy.
\<close>

theorem normalize_errors:
  assumes "failure \<noteq> JUndefined" and "failure \<noteq> JNull"
    and "js_or (getPropOpt failure ''issues'') (js_or (getPropOpt failure ''errors'') (JArr []))
           = JArr errorList"
    and "\<forall>err \<in> set errorList.
           err \<noteq> JUndefined \<and> err \<noteq> JNull
           \<and> (\<not> truthy (getPropOpt err ''path'') \<or> isArray (getPropOpt err ''path''))"
  shows "normalizeZodErrors failure =
     Inr (JArr (map (\<lambda>err.
       JObj [(''field'', case getPropOpt err ''path'' of
                           JArr segs \<Rightarrow> JStr (array_join segs ''.'')
                         | _ \<Rightarrow> JStr ''unknown''),
             (''message'', js_or (getPropOpt err ''message'') (JStr ''Validation failed'')),
             (''code'', js_or (getPropOpt err ''code'') (JStr ''unknown'')),
             (''value'', js_or (getPropOpt err ''input'') (getPropOpt err ''received'')),
             (''type'', js_or (getPropOpt err ''expected'')
                          (js_or (getPropOpt err ''format'') (JStr ''unknown'')))]) errorList))"
proof -
  have "normalizeEntries errorList = Inr (map (\<lambda>err.
       JObj [(''field'', case getPropOpt err ''path'' of
                           JArr segs \<Rightarrow> JStr (array_join segs ''.'')
                         | _ \<Rightarrow> JStr ''unknown''),
             (''message'', js_or (getPropOpt err ''message'') (JStr ''Validation failed'')),
             (''code'', js_or (getPropOpt err ''code'') (JStr ''unknown'')),
             (''value'', js_or (getPropOpt err ''input'') (getPropOpt err ''received'')),
             (''type'', js_or (getPropOpt err ''expected'')
                          (js_or (getPropOpt err ''format'') (JStr ''unknown'')))]) errorList)"
    by (rule normalizeEntries_ok) (use assms(4) in \<open>auto simp: normalizeEntry_ok\<close>)
  then show ?thesis
    using assms(1-3) by (simp add: normalizeZodErrors_def getProp_defined)
qed

theorem normalize_errors_witness:
  "normalizeZodErrors
     (JObj [(''name'', JStr ''ZodError''),
            (''issues'', JArr [JObj [(''path'', JArr [JStr ''tags'', JNum 2]),
                                    (''message'', JStr ''Too long''),
                                    (''code'', JStr ''too_big''),
                                    (''received'', JNum 3)],
                              JObj [(''format'', JStr ''email'')]])])
   = Inr (JArr [JObj [(''field'', JStr ''tags.2''), (''message'', JStr ''Too long''),
                      (''code'', JStr ''too_big''), (''value'', JNum 3), (''type'', JStr ''unknown'')],
                JObj [(''field'', JStr ''unknown''), (''message'', JStr ''Validation failed''),
                      (''code'', JStr ''unknown''), (''value'', JUndefined), (''type'', JStr ''email'')]])"
proof -
  let ?e1 = "JObj [(''path'', JArr [JStr ''tags'', JNum 2]), (''message'', JStr ''Too long''),
                   (''code'', JStr ''too_big''), (''received'', JNum 3)]"
  let ?e2 = "JObj [(''format'', JStr ''email'')]"
  let ?f = "JObj [(''name'', JStr ''ZodError''), (''issues'', JArr [?e1, ?e2])]"
  have l: "js_or (getPropOpt ?f ''issues'') (js_or (getPropOpt ?f ''errors'') (JArr [])) = JArr [?e1, ?e2]"
    by code_simp
  have p1: "getPropOpt ?e1 ''path'' = JArr [JStr ''tags'', JNum 2]" by code_simp
  have p2: "getPropOpt ?e2 ''path'' = JUndefined" by code_simp
  have e: "\<forall>err \<in> set [?e1, ?e2]. err \<noteq> JUndefined \<and> err \<noteq> JNull
           \<and> (\<not> truthy (getPropOpt err ''path'') \<or> isArray (getPropOpt err ''path''))"
    by (simp add: p1 p2 isArray_def truthy_def)
  have j: "array_join [JStr ''tags'', JNum 2] ''.'' = ''tags.2''" by code_simp
  have r: "js_or (getPropOpt ?e1 ''message'') (JStr ''Validation failed'') = JStr ''Too long''"
    "js_or (getPropOpt ?e1 ''code'') (JStr ''unknown'') = JStr ''too_big''"
    "js_or (getPropOpt ?e1 ''input'') (getPropOpt ?e1 ''received'') = JNum 3"
    "js_or (getPropOpt ?e1 ''expected'') (js_or (getPropOpt ?e1 ''format'') (JStr ''unknown'')) = JStr ''unknown''"
    "js_or (getPropOpt ?e2 ''message'') (JStr ''Validation failed'') = JStr ''Validation failed''"
    "js_or (getPropOpt ?e2 ''code'') (JStr ''unknown'') = JStr ''unknown''"
    "js_or (getPropOpt ?e2 ''input'') (getPropOpt ?e2 ''received'') = JUndefined"
    "js_or (getPropOpt ?e2 ''expected'') (js_or (getPropOpt ?e2 ''format'') (JStr ''unknown'')) = JStr ''email''"
    by code_simp+
  show ?thesis
    using normalize_errors [of ?f "[?e1, ?e2]", OF _ _ l e]
    by (simp add: p1 p2 j r)
qed

text \<open>C7 as stated fails: an entry that is \<^verbatim>\<open>null\<close> makes the normalizer throw, and the
  well-formed entry before it is lost with it. So does a \<^verbatim>\<open>path\<close> that is a string.\<close>

theorem normalize_errors_counterexample:
  "normalizeZodErrors (JObj [(''issues'', JArr [JObj [(''message'', JStr ''bad'')], JNull])])
     = Inl TypeError
   \<and> normalizeZodErrors (JObj [(''issues'', JArr [JObj [(''path'', JStr ''email'')]])])
     = Inl TypeError"
  by code_simp

section \<open>The fields of a compiled validation schema\<close>

text \<open>The properties of a field's compiled rule are stated for \<open>fieldValidator\<close>. For a
  definition with distinct field names, the rule \<^verbatim>\<open>createZodSchema\<close> stores under a
  field's name is the one \<open>fieldValidator\<close> returns for it.\<close>

lemma zodFields_step:
  "zodFields env options cm ((n, fp) # rest) acc =
     (case fieldValidator env options cm n fp of
        Inl e \<Rightarrow> Inl e
      | Inr v \<Rightarrow> zodFields env options cm rest (obj_set acc n v))"
  by (simp add: fieldValidator_def)

lemma zodFields_lookup:
  assumes "zodFields env options cm es acc = Inr shape" and "distinct (map fst es)"
  shows "(\<forall>(n, fp) \<in> set es. \<exists>v. fieldValidator env options cm n fp = Inr v \<and> map_of shape n = Some v)
         \<and> (\<forall>n. n \<notin> fst ` set es \<longrightarrow> map_of shape n = map_of acc n)"
  using assms
proof (induction es arbitrary: acc)
  case Nil
  then show ?case by simp
next
  case (Cons e es)
  obtain n fp where e: "e = (n, fp)" by (cases e)
  from Cons.prems(1) obtain v where v: "fieldValidator env options cm n fp = Inr v"
    and rest: "zodFields env options cm es (obj_set acc n v) = Inr shape"
    unfolding e zodFields_step by (auto split: sum.splits)
  from Cons.prems(2) have d: "distinct (map fst es)" and fresh: "n \<notin> fst ` set es"
    by (auto simp: e)
  from Cons.IH [OF rest d]
  have ih1: "\<forall>(m, fq) \<in> set es. \<exists>w. fieldValidator env options cm m fq = Inr w \<and> map_of shape m = Some w"
    and ih2: "\<forall>m. m \<notin> fst ` set es \<longrightarrow> map_of shape m = map_of (obj_set acc n v) m"
    by blast+
  from ih2 fresh have "map_of shape n = Some v"
    by (simp add: map_of_obj_set)
  with v ih1 have "\<forall>(m, fq) \<in> set (e # es). \<exists>w. fieldValidator env options cm m fq = Inr w \<and> map_of shape m = Some w"
    by (auto simp: e)
  moreover from ih2 have "\<forall>m. m \<notin> fst ` set (e # es) \<longrightarrow> map_of shape m = map_of acc m"
    by (auto simp: e map_of_obj_set)
  ultimately show ?case by blast
qed

lemma createZodSchema_field:
  assumes "createZodSchema env (JObj defs) options = Inr z"
    and "distinct (map fst defs)" and "map_of defs n = Some fp"
  shows "\<exists>shape v. z = ZodObject shape False None
           \<and> fieldValidator env options
                (orDefault (getPropOpt (orDefault options (JObj [])) ''customMessages'') (JObj [])) n fp
               = Inr v
           \<and> map_of shape n = Some v"
proof -
  let ?cm = "orDefault (getPropOpt (orDefault options (JObj [])) ''customMessages'') (JObj [])"
  from assms(1) obtain shape where shape: "zodFields env options ?cm defs [] = Inr shape"
    and z: "z = ZodObject shape False None"
    by (auto simp: Let_def objectEntries_def own_entries_def getPropOpt_def split: sum.splits)
  from assms(3) have "(n, fp) \<in> set defs" by (rule map_of_SomeD)
  with zodFields_lookup [OF shape assms(2)] z show ?thesis by blast
qed

section \<open>One round of the modifier loop\<close>

text \<open>The case analysis of \<open>zodProp\<close>: a property holds of the rule a round returns when
  it holds of the rule the round was given and of what each case of the \<^verbatim>\<open>switch\<close> can
  make of it, under the conditions of that case.\<close>

lemma yields_Inr: "P x \<Longrightarrow> yields (Inr x) P"
  by (simp add: yields_def)

lemma yields_if_weak: "(c \<Longrightarrow> yields a P) \<Longrightarrow> yields b P \<Longrightarrow> yields (if c then a else b) P"
  by simp

lemma yields_and_then: "(\<And>x. yields (f x) P) \<Longrightarrow> yields (and_then r f) P"
  by (cases r) (simp_all add: yields_def)

lemma yieldsD: "yields r P \<Longrightarrow> r = Inr x \<Longrightarrow> P x"
  by (simp add: yields_def)

lemma zodProp_cases:
  assumes same: "P v"
    and opt: "k = ''required'' \<Longrightarrow> x = JBool False \<Longrightarrow> P (ZodOptional v)"
    and minlen: "\<And>c. k = ''minlength'' \<or> k = ''minLength'' \<Longrightarrow> def_type_is env v ''string'' \<Longrightarrow> P (add_check v c)"
    and maxlen: "\<And>c. k = ''maxlength'' \<or> k = ''maxLength'' \<Longrightarrow> def_type_is env v ''string'' \<Longrightarrow> P (add_check v c)"
    and minnum: "\<And>c. k = ''min'' \<Longrightarrow> def_type_is env v ''number'' \<Longrightarrow> P (add_check v c)"
    and minarr: "\<And>c. k = ''min'' \<Longrightarrow> def_type_is env v ''array'' \<Longrightarrow> P (add_check v c)"
    and maxnum: "\<And>c. k = ''max'' \<Longrightarrow> def_type_is env v ''number'' \<Longrightarrow> P (add_check v c)"
    and maxarr: "\<And>c. k = ''max'' \<Longrightarrow> def_type_is env v ''array'' \<Longrightarrow> P (add_check v c)"
    and email: "\<And>c. k = ''email'' \<Longrightarrow> x = JBool True \<and> def_type_is env v ''string'' \<Longrightarrow> P (add_check v c)"
    and regex: "\<And>c. k = ''regex'' \<or> k = ''match'' \<Longrightarrow> def_type_is env v ''string'' \<Longrightarrow> P (add_check v c)"
    and enum: "\<And>allowed m. k = ''enum'' \<Longrightarrow> isArray x \<Longrightarrow> P (refine env (ZodString [ToLowerCase]) allowed m)"
    and dflt: "k = ''default'' \<Longrightarrow> x \<noteq> JUndefined \<Longrightarrow> P (ZodDefault v x)"
    and ref: "k = ''ref'' \<Longrightarrow> def_typeName_is env v ''ZodString'' \<Longrightarrow> P objectIdValidator"
  shows "yields (zodProp env n cm v (k, x)) P"
proof -
  have Pif: "\<And>c a b. (c \<Longrightarrow> P a) \<Longrightarrow> P b \<Longrightarrow> P (if c then a else b)"
    by simp
  show ?thesis
    unfolding zodProp_def Let_def fst_conv snd_conv
    by (intro yields_if_weak yields_and_then yields_Inr Pif)
       (rule same
        | rule minlen maxlen minnum minarr maxnum maxarr email regex, assumption, assumption
        | rule opt enum dflt ref, assumption, (simp; fail))+
qed

lemma zodProps_append:
  "zodProps env n cm v (ps @ qs) = and_then (zodProps env n cm v ps) (\<lambda>w. zodProps env n cm w qs)"
  by (induction ps arbitrary: v) (auto simp: and_then_def split: sum.splits)

lemma zodProp_default:
  "zodProp env n cm v (''default'', d) = Inr (if d \<noteq> JUndefined then ZodDefault v d else v)"
  by (simp add: zodProp_def)

lemma fieldValidator_object:
  "fieldValidator env options cm name (JObj fp) = Inr rule \<longleftrightarrow>
     (\<exists>base v.
        zodBaseType (JObj fp)
          (let schema = getPropOpt (JObj fp) ''schema''
           in if truthy schema then createZodSchema env schema options else Inr openObject) = Inr base
        \<and> zodProps env name cm base fp = Inr v
        \<and> rule = defaultStep (JObj fp) (passwordStep env name (JObj fp) v))"
  by (auto simp: fieldValidator_def zodField_def isArray_def and_then_eq_Inr own_entries_def)


section \<open>Parsing with optional and default nodes\<close>


lemma parse_wrapper_v4:
  "version env = ZodV4 \<Longrightarrow> optional_input v \<Longrightarrow> parse env v JUndefined \<noteq> None"
  by (induction v) (simp_all add: optional_input_def)

lemma accepts_optional_undefined: "accepts env (ZodOptional inner) JUndefined"
  using parse_wrapper_v4 [of env inner]
  by (cases "version env") (auto simp: accepts_def)




section \<open>Enum fields\<close>













section \<open>Modifiers, defaults and optional rules\<close>

lemma createZodSchema_object:
  "createZodSchema env sd options = Inr z \<Longrightarrow> \<exists>shape. z = ZodObject shape False None"
  by (auto simp: Let_def split: sum.splits)

lemma zodBaseType_not_optional:
  assumes "zodBaseType fp nested = Inr base" and "\<And>z. nested = Inr z \<Longrightarrow> \<forall>i. z \<noteq> ZodOptional i"
  shows "\<forall>i. base \<noteq> ZodOptional i"
  using assms
  by (auto simp: zodBaseType_def and_then_eq_Inr Let_def zodArrayType_def openObject_def
                 stringMap_def objectIdValidator_def split: if_splits)

lemma add_check_not_optional: "\<forall>i. v \<noteq> ZodOptional i \<Longrightarrow> \<forall>i. add_check v c \<noteq> ZodOptional i"
  by (cases v) (simp_all add: add_check_def)

lemma refine_not_optional: "\<forall>i. refine env (ZodString cs) allowed m \<noteq> ZodOptional i"
  by (simp add: refine_def add_check_def)

lemma zodProp_not_optional:
  assumes "zodProp env n cm v (k, x) = Inr w" and "\<forall>i. v \<noteq> ZodOptional i"
    and "(k, x) \<noteq> (''required'', JBool False)"
  shows "\<forall>i. w \<noteq> ZodOptional i"
proof -
  have "yields (zodProp env n cm v (k, x)) (\<lambda>w. \<forall>i. w \<noteq> ZodOptional i)"
    using assms(2,3)
    by (intro zodProp_cases)
       (auto simp: add_check_not_optional refine_not_optional objectIdValidator_def)
  then show ?thesis using assms(1) by (rule yieldsD)
qed

lemma zodProps_not_optional:
  assumes "zodProps env n cm v ps = Inr w" and "\<forall>i. v \<noteq> ZodOptional i"
    and "(''required'', JBool False) \<notin> set ps"
  shows "\<forall>i. w \<noteq> ZodOptional i"
  using assms
proof (induction ps arbitrary: v)
  case Nil
  then show ?case by simp
next
  case (Cons p ps)
  obtain k x where p: "p = (k, x)" by (cases p)
  from Cons.prems(1) obtain u where u: "zodProp env n cm v (k, x) = Inr u"
    and w: "zodProps env n cm u ps = Inr w"
    by (auto simp: p and_then_eq_Inr)
  from u Cons.prems(2,3) have "\<forall>i. u \<noteq> ZodOptional i"
    by (intro zodProp_not_optional [of env n cm v k x u]) (auto simp: p)
  with w Cons.prems(3) show ?case
    by (intro Cons.IH [of u]) auto
qed

lemma passwordStep_not_optional:
  "\<forall>i. v \<noteq> ZodOptional i \<Longrightarrow> \<forall>i. passwordStep env name fp v \<noteq> ZodOptional i"
  by (simp add: passwordStep_def add_check_not_optional)

lemma default_node_step:
  assumes w: "zodProp env n cm (ZodDefault i d) (k, x) = Inr w"
    and key: "k = ''enum'' \<longrightarrow> \<not> isArray x" "k \<noteq> ''default''" "(k, x) \<noteq> (''required'', JBool False)"
  shows "w = ZodDefault i d"
proof -
  have "yields (zodProp env n cm (ZodDefault i d) (k, x)) (\<lambda>w. w = ZodDefault i d)"
    using key
    by (intro zodProp_cases)
       (simp_all add: def_type_is_def def_typeName_is_def v4_type_def v3_typeName_def)
  then show ?thesis using w by (rule yieldsD)
qed

lemma default_node_kept:
  assumes "zodProps env n cm (ZodDefault i d) ps = Inr w"
    and "\<forall>p \<in> set ps. (fst p = ''enum'' \<longrightarrow> \<not> isArray (snd p)) \<and> fst p \<noteq> ''default''
                      \<and> p \<noteq> (''required'', JBool False)"
  shows "w = ZodDefault i d"
  using assms
proof (induction ps)
  case Nil
  then show ?case by simp
next
  case (Cons p ps)
  obtain k x where p: "p = (k, x)" by (cases p)
  from Cons.prems(1) obtain u where u: "zodProp env n cm (ZodDefault i d) (k, x) = Inr u"
    and w: "zodProps env n cm u ps = Inr w"
    by (auto simp: p and_then_eq_Inr)
  from Cons.prems(2) have "k = ''enum'' \<longrightarrow> \<not> isArray x" "k \<noteq> ''default''" "(k, x) \<noteq> (''required'', JBool False)"
    by (simp_all add: p)
  with u have "u = ZodDefault i d" by (rule default_node_step)
  with w Cons.prems(2) show ?case by (intro Cons.IH) simp_all
qed

lemma default_node_tags:
  "\<not> def_type_is env (ZodDefault i d) ''string''"
  by (simp add: def_type_is_def v4_type_def)

text \<open>
  C8 (amended). A field definition with a defined \<^verbatim>\<open>default\<close> whose \<^verbatim>\<open>required\<close> is not
  \<^verbatim>\<open>true\<close> compiles to an optional node, and the rule accepts a missing value
  (\<^verbatim>\<open>undefined\<close>). A field definition whose \<^verbatim>\<open>required\<close> is \<^verbatim>\<open>true\<close> never compiles
  to an optional node. But when it has a defined \<^verbatim>\<open>default\<close>, with no array \<^verbatim>\<open>enum\<close> after it,
  its rule is the default node, and that accepts a missing value too: always with Zod 4, and
  with Zod 3 exactly when the rule under the default node accepts the default value.
\<close>

theorem default_optional:
  "(fieldValidator env options cm name (JObj fp) = Inr rule
      \<and> getPropOpt (JObj fp) ''default'' \<noteq> JUndefined
      \<and> getPropOpt (JObj fp) ''required'' \<noteq> JBool True
    \<longrightarrow> (\<exists>inner. rule = ZodOptional inner) \<and> accepts env rule JUndefined)
   \<and> (fieldValidator env options cm name (JObj fp) = Inr rule
      \<and> distinct (map fst fp)
      \<and> getPropOpt (JObj fp) ''required'' = JBool True
    \<longrightarrow> (\<forall>inner. rule \<noteq> ZodOptional inner)
        \<and> (fp = pre @ [(''default'', d)] @ post \<and> d \<noteq> JUndefined
            \<and> (\<forall>p \<in> set post. fst p = ''enum'' \<longrightarrow> \<not> isArray (snd p))
           \<longrightarrow> (\<exists>inner. rule = ZodDefault inner d
                  \<and> (accepts env rule JUndefined
                       \<longleftrightarrow> version env = ZodV4 \<or> accepts env inner (default_value env d)))))"
proof (intro conjI impI)
  assume "fieldValidator env options cm name (JObj fp) = Inr rule
      \<and> getPropOpt (JObj fp) ''default'' \<noteq> JUndefined
      \<and> getPropOpt (JObj fp) ''required'' \<noteq> JBool True"
  then have opt: "\<exists>inner. rule = ZodOptional inner"
    by (auto simp: fieldValidator_object defaultStep_def)
  then show "\<exists>inner. rule = ZodOptional inner" .
  from opt show "accepts env rule JUndefined"
    by (auto simp: accepts_optional_undefined)
next
  assume a: "fieldValidator env options cm name (JObj fp) = Inr rule
      \<and> distinct (map fst fp)
      \<and> getPropOpt (JObj fp) ''required'' = JBool True"
  let ?nested = "let schema = getPropOpt (JObj fp) ''schema''
                 in if truthy schema then createZodSchema env schema options else Inr openObject"
  from a obtain base v where base: "zodBaseType (JObj fp) ?nested = Inr base"
    and v: "zodProps env name cm base fp = Inr v"
    and rule: "rule = defaultStep (JObj fp) (passwordStep env name (JObj fp) v)"
    by (auto simp: fieldValidator_object)
  from a have req: "map_of fp ''required'' = Some (JBool True)"
    by (auto simp: getPropOpt_def getProp_def own_entries_def split: option.splits)
  have nofalse: "(''required'', JBool False) \<notin> set fp"
  proof
    assume "(''required'', JBool False) \<in> set fp"
    with a have "map_of fp ''required'' = Some (JBool False)" by simp
    with req show False by simp
  qed
  from a have kept: "defaultStep (JObj fp) (passwordStep env name (JObj fp) v)
                          = passwordStep env name (JObj fp) v"
    by (simp add: defaultStep_def)
  {
    have "\<forall>i. z \<noteq> ZodOptional i" if "?nested = Inr z" for z
      using that createZodSchema_object [of env "getPropOpt (JObj fp) ''schema''" options z]
      by (auto simp: Let_def openObject_def split: if_splits)
    with base have b: "\<forall>i. base \<noteq> ZodOptional i"
      by (rule zodBaseType_not_optional)
    from v b nofalse have "\<forall>i. v \<noteq> ZodOptional i"
      by (rule zodProps_not_optional)
    then have "\<forall>i. passwordStep env name (JObj fp) v \<noteq> ZodOptional i"
      by (rule passwordStep_not_optional)
    with kept show "\<forall>inner. rule \<noteq> ZodOptional inner"
      using rule by simp
  next
    assume d: "fp = pre @ [(''default'', d)] @ post \<and> d \<noteq> JUndefined
            \<and> (\<forall>p \<in> set post. fst p = ''enum'' \<longrightarrow> \<not> isArray (snd p))"
    with v obtain u where w: "zodProps env name cm (ZodDefault u d) post = Inr v"
      by (auto simp: zodProps_append [of env name cm _ pre] and_then_eq_Inr zodProp_default)
    from a d have "''default'' \<notin> fst ` set post"
      by auto
    with d nofalse have "\<forall>p \<in> set post. (fst p = ''enum'' \<longrightarrow> \<not> isArray (snd p)) \<and> fst p \<noteq> ''default''
                      \<and> p \<noteq> (''required'', JBool False)"
      by force
    with w have "v = ZodDefault u d"
      by (rule default_node_kept)
    with rule kept have node: "rule = ZodDefault u d"
      by (simp add: passwordStep_def default_node_tags)
    have "accepts env (ZodDefault u d) JUndefined
            \<longleftrightarrow> version env = ZodV4 \<or> accepts env u (default_value env d)"
      by (cases "version env") (simp_all add: accepts_def)
    with node show "\<exists>inner. rule = ZodDefault inner d
                  \<and> (accepts env rule JUndefined
                       \<longleftrightarrow> version env = ZodV4 \<or> accepts env inner (default_value env d))"
      by simp
  }
qed

theorem default_optional_witness:
  "fieldValidator exampleZod4 JUndefined (JObj []) ''score''
     (JObj [(''type'', JStr ''Number''), (''default'', JNum 0)])
     = Inr (ZodOptional (ZodDefault (ZodNumber []) (JNum 0)))
   \<and> accepts exampleZod4 (ZodOptional (ZodDefault (ZodNumber []) (JNum 0))) JUndefined
   \<and> fieldValidator exampleZod3 JUndefined (JObj []) ''role''
       (JObj [(''type'', JStr ''String''), (''required'', JBool True), (''default'', JStr ''user'')])
     = Inr (ZodDefault (ZodString []) (JStr ''user''))
   \<and> accepts exampleZod3 (ZodDefault (ZodString []) (JStr ''user'')) JUndefined
   \<and> accepts exampleZod3 (ZodString []) (JStr ''user'')
   \<and> fieldValidator exampleZod3 JUndefined (JObj []) ''age''
       (JObj [(''type'', JStr ''Number''), (''required'', JBool True), (''default'', JStr ''none'')])
     = Inr (ZodDefault (ZodNumber []) (JStr ''none''))
   \<and> \<not> accepts exampleZod3 (ZodDefault (ZodNumber []) (JStr ''none'')) JUndefined
   \<and> \<not> accepts exampleZod3 (ZodNumber []) (JStr ''none'')"
proof -
  let ?a = "[(''type'', JStr ''Number''), (''default'', JNum 0)]"
  let ?b = "[(''type'', JStr ''String''), (''required'', JBool True)] @ [(''default'', JStr ''user'')] @ []"
  let ?c = "[(''type'', JStr ''Number''), (''required'', JBool True)] @ [(''default'', JStr ''none'')] @ []"
  have a: "fieldValidator exampleZod4 JUndefined (JObj []) ''score'' (JObj ?a)
             = Inr (ZodOptional (ZodDefault (ZodNumber []) (JNum 0)))"
    by code_simp
  have b: "fieldValidator exampleZod3 JUndefined (JObj []) ''role'' (JObj ?b)
             = Inr (ZodDefault (ZodString []) (JStr ''user''))"
    by code_simp
  have c: "fieldValidator exampleZod3 JUndefined (JObj []) ''age'' (JObj ?c)
             = Inr (ZodDefault (ZodNumber []) (JStr ''none''))"
    by code_simp
  have h: "getPropOpt (JObj ?a) ''default'' \<noteq> JUndefined" "getPropOpt (JObj ?a) ''required'' \<noteq> JBool True"
    "distinct (map fst ?b)" "getPropOpt (JObj ?b) ''required'' = JBool True"
    "distinct (map fst ?c)" "getPropOpt (JObj ?c) ''required'' = JBool True"
    "default_value exampleZod3 (JStr ''user'') = JStr ''user''"
    "default_value exampleZod3 (JStr ''none'') = JStr ''none''"
    "accepts exampleZod3 (ZodString []) (JStr ''user'')"
    "\<not> accepts exampleZod3 (ZodNumber []) (JStr ''none'')"
    "version exampleZod3 \<noteq> ZodV4"
    by code_simp+
  have e: "\<forall>p \<in> set []. fst p = ''enum'' \<longrightarrow> \<not> isArray (snd p)" "JStr ''user'' \<noteq> JUndefined" "JStr ''none'' \<noteq> JUndefined"
    by simp_all
  have 1: "accepts exampleZod4 (ZodOptional (ZodDefault (ZodNumber []) (JNum 0))) JUndefined"
    using default_optional [of exampleZod4 JUndefined "JObj []" "''score''" ?a
                               "ZodOptional (ZodDefault (ZodNumber []) (JNum 0))"] a h
    by blast
  have 2: "accepts exampleZod3 (ZodDefault (ZodString []) (JStr ''user'')) JUndefined"
    using default_optional [where env = exampleZod3 and options = JUndefined and cm = "JObj []"
        and name = "''role''" and fp = ?b and rule = "ZodDefault (ZodString []) (JStr ''user'')"
        and pre = "[(''type'', JStr ''String''), (''required'', JBool True)]"
        and d = "JStr ''user''" and post = "[]"] b h e
    by auto
  have 3: "\<not> accepts exampleZod3 (ZodDefault (ZodNumber []) (JStr ''none'')) JUndefined"
    using default_optional [where env = exampleZod3 and options = JUndefined and cm = "JObj []"
        and name = "''age''" and fp = ?c and rule = "ZodDefault (ZodNumber []) (JStr ''none'')"
        and pre = "[(''type'', JStr ''Number''), (''required'', JBool True)]"
        and d = "JStr ''none''" and post = "[]"] c h e
    by auto
  from a b c 1 2 3 h show ?thesis
    by simp
qed

text \<open>C8 as stated fails in its second half: with \<^verbatim>\<open>required: true\<close> a default does
  make the rule take a missing value. The \<^verbatim>\<open>role\<close> field of the repository's own
  example, \<^verbatim>\<open>{type: 'String', required: true, enum: [...], default: 'user'}\<close>, and the
  same field without the \<^verbatim>\<open>enum\<close>, compile to a default node that turns \<^verbatim>\<open>undefined\<close>
  into \<^verbatim>\<open>'user'\<close>.\<close>

theorem default_optional_counterexample:
  "fieldValidator exampleZod4 JUndefined (JObj []) ''role''
     (JObj [(''type'', JStr ''String''), (''required'', JBool True),
            (''enum'', JArr [JStr ''user'', JStr ''admin'', JStr ''moderator'']),
            (''default'', JStr ''user'')])
     = Inr (ZodDefault
              (ZodString [ToLowerCase,
                          Refine [''user'', ''admin'', ''moderator'']
                            (JStr ''role must be one of: user, admin, moderator'')])
              (JStr ''user''))
   \<and> parse exampleZod4
        (ZodDefault
           (ZodString [ToLowerCase,
                       Refine [''user'', ''admin'', ''moderator'']
                         (JStr ''role must be one of: user, admin, moderator'')])
           (JStr ''user''))
        JUndefined
      = Some (JStr ''user'')
   \<and> fieldValidator exampleZod3 JUndefined (JObj []) ''role''
       (JObj [(''type'', JStr ''String''), (''required'', JBool True), (''default'', JStr ''user'')])
     = Inr (ZodDefault (ZodString []) (JStr ''user''))
   \<and> parse exampleZod3 (ZodDefault (ZodString []) (JStr ''user'')) JUndefined = Some (JStr ''user'')
   \<and> accepts exampleZod4
        (ZodDefault
           (ZodString [ToLowerCase,
                       Refine [''user'', ''admin'', ''moderator'']
                         (JStr ''role must be one of: user, admin, moderator'')])
           (JStr ''user''))
        JUndefined
   \<and> accepts exampleZod3 (ZodDefault (ZodString []) (JStr ''user'')) JUndefined"
  by code_simp

section \<open>References and the password step\<close>

lemma zodProp_ref_v4: "version env = ZodV4 \<Longrightarrow> zodProp env n cm v (''ref'', x) = Inr v"
  by (simp add: zodProp_def def_typeName_is_def)

lemma zodProp_ref_v3:
  "version env = ZodV3 \<Longrightarrow> zodProp env n cm (ZodString cs) (''ref'', x) = Inr objectIdValidator"
  by (simp add: zodProp_def def_typeName_is_def v3_typeName_def)

lemma accepts_objectId:
  "accepts env objectIdValidator x \<longleftrightarrow> (\<exists>s. x = JStr s \<and> length s = 24 \<and> list_all is_hex s)"
  by (cases x) (auto simp: accepts_def objectIdValidator_def regex_match_def objectid_match_def)

lemma no_string_tag_v3: "version env = ZodV3 \<Longrightarrow> \<not> def_type_is env v s"
  by (simp add: def_type_is_def)

text \<open>
  C5 at its failing input. With Zod 4, whose \<^verbatim>\<open>_def.type\<close> tags the compiler reads
  everywhere else, the \<^verbatim>\<open>ref\<close> case tests \<^verbatim>\<open>_def.typeName\<close>, which no node has: the
  modifier changes nothing, and the rule compiled for \<^verbatim>\<open>{type: 'String', ref: 'User'}\<close> is
  the bare string rule, which accepts a string that is no ObjectId.
\<close>

theorem ref_not_reapplied:
  "fieldValidator exampleZod4 JUndefined (JObj []) ''author''
     (JObj [(''type'', JStr ''String''), (''ref'', JStr ''User'')]) = Inr (ZodString [])
   \<and> accepts exampleZod4 (ZodString []) (JStr ''not an ObjectId'')"
  by code_simp

text \<open>
  C2 at its failing input. A caller's pattern given as \<^verbatim>\<open>match\<close>, the spelling the
  modifier loop treats like \<^verbatim>\<open>regex\<close>, does not keep the password step from firing:
  the rule compiled for the field \<^verbatim>\<open>password\<close> with \<^verbatim>\<open>{type: 'String', match: /^[a-z]+$/}\<close>
  carries the caller's pattern and the default strong-password pattern, and rejects
  \<^verbatim>\<open>"abcdefgh"\<close>; with the same pattern given as \<^verbatim>\<open>regex\<close> it carries the caller's
  pattern only.
\<close>

theorem password_step_ignores_match:
  "fieldValidator exampleZod4 JUndefined (JObj []) ''password''
     (JObj [(''type'', JStr ''String''), (''match'', JRegExp ''^[a-z]+$'' [])])
     = Inr (ZodString [RegexCheck (Pattern ''^[a-z]+$'' []) (JStr ''password format is invalid''),
                       RegexCheck PasswordPattern (passwordMessage ''password'')])
   \<and> \<not> accepts exampleZod4
          (ZodString [RegexCheck (Pattern ''^[a-z]+$'' []) (JStr ''password format is invalid''),
                      RegexCheck PasswordPattern (passwordMessage ''password'')])
          (JStr ''abcdefgh'')
   \<and> fieldValidator exampleZod4 JUndefined (JObj []) ''password''
       (JObj [(''type'', JStr ''String''), (''regex'', JRegExp ''^[a-z]+$'' [])])
     = Inr (ZodString [RegexCheck (Pattern ''^[a-z]+$'' []) (JStr ''password format is invalid'')])"
  by code_simp

lemma password_example:
  "fieldValidator exampleZod4 JUndefined (JObj []) ''password''
     (JObj [(''type'', JStr ''String''), (''minlength'', JNum 8)])
     = Inr (ZodString [MinCheck (JNum 8) (JStr ''password must be at least 8 characters''),
                       RegexCheck PasswordPattern (passwordMessage ''password'')])
   \<and> \<not> accepts exampleZod4
          (ZodString [MinCheck (JNum 8) (JStr ''password must be at least 8 characters''),
                      RegexCheck PasswordPattern (passwordMessage ''password'')]) (JStr ''weak'')
   \<and> accepts exampleZod4
          (ZodString [MinCheck (JNum 8) (JStr ''password must be at least 8 characters''),
                      RegexCheck PasswordPattern (passwordMessage ''password'')]) (JStr ''Str0ng!ab'')"
  by code_simp

text \<open>In general: on a string rule of a field whose name contains \<^verbatim>\<open>password\<close>, the
  password step fires whenever the field definition has no \<^verbatim>\<open>regex\<close> entry, whatever
  else it has, a \<^verbatim>\<open>match\<close> entry included.\<close>

lemma password_step_fires:
  assumes "includes_str (toLowerCase name) ''password''" and "map_of fp ''regex'' = None"
    and "def_type_is env v ''string''"
  shows "passwordStep env name (JObj fp) v
           = add_check v (RegexCheck PasswordPattern (passwordMessage name))"
  using assms by (simp add: passwordStep_def getPropOpt_def getProp_def own_entries_def)

section \<open>The compilation cache\<close>

lemma createSchemas_hit:
  assumes "getProp (orDefault options (JObj [])) ''enableCache'' = Inr ec"
    and "truthy (orDefault ec (JBool True))"
    and "map_of (schemaCache st)
           (generateCacheKey stringify sd (restWithout ''enableCache'' (orDefault options (JObj [])))) = Some r"
  shows "createSchemas env stringify st sd options = (st, Inr r)"
  using assms by (simp add: createSchemas_def Let_def)

lemma createSchemas_stores:
  assumes "createSchemas env stringify st sd options = (st1, Inr r)"
    and "getProp (orDefault options (JObj [])) ''enableCache'' = Inr ec"
    and "truthy (orDefault ec (JBool True))"
  shows "map_of (schemaCache st1)
           (generateCacheKey stringify sd (restWithout ''enableCache'' (orDefault options (JObj [])))) = Some r"
  using assms
  by (auto simp: createSchemas_def Let_def map_of_obj_set split: if_splits sum.splits)

lemma createSchemas_keeps:
  assumes "createSchemas env stringify st sd options = (st1, res)"
    and "map_of (schemaCache st) k = Some r"
  shows "map_of (schemaCache st1) k = Some r"
  using assms
  by (auto simp: createSchemas_def Let_def map_of_obj_set split: if_splits sum.splits)

lemma calls_keep:
  assumes "calls env stringify st st1" and "map_of (schemaCache st) k = Some r"
  shows "map_of (schemaCache st1) k = Some r"
  using assms
  by (induction rule: calls.induct) (auto intro: createSchemas_keeps)

lemma createSchemas_disabled:
  assumes "getProp (orDefault options (JObj [])) ''enableCache'' = Inr ec"
    and "\<not> truthy (orDefault ec (JBool True))"
    and "createSchemas env stringify st sd options = (st1, res)"
  shows "schemaCache st1 = schemaCache st
         \<and> createSchemas env stringify (st \<lparr> schemaCache := c \<rparr>) sd options
             = (st1 \<lparr> schemaCache := c \<rparr>, res)"
  using assms
  by (auto simp: createSchemas_def Let_def split: if_splits sum.splits)

text \<open>
  C3. With caching enabled, a call of the entry point that returns a compiled pair is
  followed, after any number of other calls, by the same reference for the same
  definition and options, and that later call leaves the module state as it is. A call
  with \<^verbatim>\<open>enableCache: false\<close> leaves the cache as it is, and its outcome does not depend
  on what the cache holds.
\<close>

theorem cache_determinism:
  "(createSchemas env stringify st sd options = (st1, Inr r)
      \<and> truthy (orDefault (getPropOpt (orDefault options (JObj [])) ''enableCache'') (JBool True))
      \<and> calls env stringify st1 st2
    \<longrightarrow> createSchemas env stringify st2 sd options = (st2, Inr r))
   \<and> (getPropOpt options ''enableCache'' = JBool False
      \<and> createSchemas env stringify st sd options = (st1, res)
    \<longrightarrow> schemaCache st1 = schemaCache st
        \<and> createSchemas env stringify (st \<lparr> schemaCache := c \<rparr>) sd options
            = (st1 \<lparr> schemaCache := c \<rparr>, res))"
proof -
  let ?o = "orDefault options (JObj [])"
  have first: "createSchemas env stringify st2 sd options = (st2, Inr r)"
    if a: "createSchemas env stringify st sd options = (st1, Inr r)
      \<and> truthy (orDefault (getPropOpt ?o ''enableCache'') (JBool True))
      \<and> calls env stringify st1 st2"
  proof -
    from a obtain ec where ec: "getProp ?o ''enableCache'' = Inr ec"
      by (cases "getProp ?o ''enableCache''") (auto simp: createSchemas_def Let_def)
    with a have t: "truthy (orDefault ec (JBool True))"
      by (simp add: getPropOpt_def)
    from a ec t have "map_of (schemaCache st1)
        (generateCacheKey stringify sd (restWithout ''enableCache'' ?o)) = Some r"
      by (intro createSchemas_stores [of env stringify st sd options st1 r ec]) auto
    with a have "map_of (schemaCache st2)
        (generateCacheKey stringify sd (restWithout ''enableCache'' ?o)) = Some r"
      by (intro calls_keep [of env stringify st1 st2]) auto
    with ec t show ?thesis
      by (rule createSchemas_hit)
  qed
  have second: "schemaCache st1 = schemaCache st
        \<and> createSchemas env stringify (st \<lparr> schemaCache := c \<rparr>) sd options
            = (st1 \<lparr> schemaCache := c \<rparr>, res)"
    if b: "getPropOpt options ''enableCache'' = JBool False
      \<and> createSchemas env stringify st sd options = (st1, res)"
  proof -
    from b have u: "options \<noteq> JUndefined" "options \<noteq> JNull"
      by (auto simp: getPropOpt_def getProp_def)
    then have "getProp (orDefault options (JObj [])) ''enableCache'' = Inr (JBool False)"
      using b by (simp add: orDefault_def getPropOpt_def getProp_def)
    moreover have "\<not> truthy (orDefault (JBool False) (JBool True))"
      by (simp add: orDefault_def truthy_def)
    ultimately show ?thesis
      using b by (intro createSchemas_disabled [of options "JBool False"]) auto
  qed
  show ?thesis
    using first second by blast
qed

theorem cache_determinism_witness:
  "createSchemas exampleZod4 js_to_string
     (fst (createSchemas exampleZod4 js_to_string \<lparr> schemaCache = [], objects = [] \<rparr>
             (JObj [(''name'', JObj [(''type'', JStr ''String'')])]) JUndefined))
     (JObj [(''name'', JObj [(''type'', JStr ''String'')])]) JUndefined
   = (fst (createSchemas exampleZod4 js_to_string \<lparr> schemaCache = [], objects = [] \<rparr>
             (JObj [(''name'', JObj [(''type'', JStr ''String'')])]) JUndefined), Inr 0)
   \<and> schemaCache
        (fst (createSchemas exampleZod4 js_to_string \<lparr> schemaCache = [], objects = [] \<rparr>
                (JObj [(''name'', JObj [(''type'', JStr ''String'')])])
                (JObj [(''enableCache'', JBool False)]))) = []"
proof -
  let ?sd = "JObj [(''name'', JObj [(''type'', JStr ''String'')])]"
  let ?st = "\<lparr> schemaCache = [], objects = [] \<rparr>"
  let ?st1 = "fst (createSchemas exampleZod4 js_to_string ?st ?sd JUndefined)"
  let ?off = "JObj [(''enableCache'', JBool False)]"
  have c1: "createSchemas exampleZod4 js_to_string ?st ?sd JUndefined = (?st1, Inr 0)"
    by code_simp
  have en: "truthy (orDefault (getPropOpt (orDefault JUndefined (JObj [])) ''enableCache'') (JBool True))"
    by code_simp
  have c2: "createSchemas exampleZod4 js_to_string ?st ?sd ?off
              = (fst (createSchemas exampleZod4 js_to_string ?st ?sd ?off),
                 snd (createSchemas exampleZod4 js_to_string ?st ?sd ?off))"
    by simp
  have off: "getPropOpt ?off ''enableCache'' = JBool False"
    by code_simp
  have "createSchemas exampleZod4 js_to_string ?st1 ?sd JUndefined = (?st1, Inr 0)"
    using cache_determinism [of exampleZod4 js_to_string ?st ?sd JUndefined ?st1 0 ?st1]
      c1 en calls_none [of exampleZod4 js_to_string ?st1]
    by blast
  moreover have "schemaCache (fst (createSchemas exampleZod4 js_to_string ?st ?sd ?off)) = schemaCache ?st"
    using cache_determinism [of exampleZod4 js_to_string ?st ?sd ?off
                                "fst (createSchemas exampleZod4 js_to_string ?st ?sd ?off)" _ _
                                "snd (createSchemas exampleZod4 js_to_string ?st ?sd ?off)"]
      c2 off
    by blast
  ultimately show ?thesis by simp
qed

end
